theory Spec2Isabelle
  imports Complex_Main "HOL-Library.Char_ord" "HOL-Library.List_Lexorder"
    "HOL-Library.Product_Lexorder"
begin

unbundle bit_operations_syntax

section \<open>Text and numbers as the JavaScript engine has them\<close>

text \<open>
  Strings are byte strings in UTF-8: an ASCII character is one \<^typ>\<open>char\<close>, the
  punctuation outside ASCII that the source's literals contain is written as its bytes.
  \<open>toLowerCase\<close>, the regular-expression classes \<open>\s\<close> and \<open>\W\<close> and \<open>trim\<close> are
  modelled on the ASCII range: a byte from 0x80 on is left as it is, is not white space
  and is not a word character. The length of a string counts its bytes, which is the
  length that JavaScript reports when the text is ASCII.
\<close>

definition emdash :: string where
  "emdash = [CHR 0xE2, CHR 0x80, CHR 0x94]"

definition endash :: string where
  "endash = [CHR 0xE2, CHR 0x80, CHR 0x93]"

definition rarrow :: string where
  "rarrow = [CHR 0xE2, CHR 0x86, CHR 0x92]"

definition geq_sign :: string where
  "geq_sign = [CHR 0xE2, CHR 0x89, CHR 0xA5]"

text \<open>Template-literal rendering of an integer: decimal digits, a leading minus sign.\<close>

fun show_nat :: "nat \<Rightarrow> string" where
  "show_nat n =
     (if n < 10 then [''0123456789'' ! n]
      else show_nat (n div 10) @ [''0123456789'' ! (n mod 10)])"

declare show_nat.simps [simp del]

definition show_int :: "int \<Rightarrow> string" where
  "show_int i = (if i < 0 then ''-'' @ show_nat (nat (- i)) else show_nat (nat i))"

text \<open>\<open>String.prototype.toLowerCase\<close> on the letters A to Z.\<close>

definition is_upper :: "char \<Rightarrow> bool" where
  "is_upper c \<longleftrightarrow> (65::nat) \<le> of_char c \<and> of_char c \<le> (90::nat)"

definition lower_char :: "char \<Rightarrow> char" where
  "lower_char c = (if is_upper c then char_of (of_char c + (32::nat)) else c)"

definition toLowerCase :: "string \<Rightarrow> string" where
  "toLowerCase s = map lower_char s"

text \<open>
  The class \<open>\s\<close>: tab, line feed, vertical tab, form feed, carriage return (codes 9
  to 13) and space (code 32).
\<close>

definition isSpace :: "char \<Rightarrow> bool" where
  "isSpace c \<longleftrightarrow> ((9::nat) \<le> of_char c \<and> of_char c \<le> (13::nat)) \<or> of_char c = (32::nat)"

text \<open>\<open>s.replace(/\s+/g, ' ')\<close>: every maximal run of white space becomes one space.\<close>

function collapse_ws :: "string \<Rightarrow> string" where
  "collapse_ws [] = []"
| "collapse_ws (c # cs) =
     (if isSpace c then CHR '' '' # collapse_ws (dropWhile isSpace cs)
      else c # collapse_ws cs)"
  by pat_completeness auto
termination
  by (relation "measure length") (auto simp: le_imp_less_Suc length_dropWhile_le)

text \<open>\<open>s.trim()\<close>: white space removed at both ends.\<close>

definition trim :: "string \<Rightarrow> string" where
  "trim s = rev (dropWhile isSpace (rev (dropWhile isSpace s)))"

section \<open>Events\<close>

type_synonym instant = int

text \<open>
  What \<open>new Date(x).getTime()\<close> gives for a field that is present: a number of
  milliseconds, or NaN when the text is no date.
\<close>

datatype timeval = InvalidDate | Time instant

text \<open>
  The \<open>message\<close> field arrives unvalidated: it is absent (or another falsy value), a
  text, or a truthy value that is no string (a number, an array, an object), which has no
  \<open>toLowerCase\<close>.
\<close>

datatype message_val = NoMessage | Text string | NonText

record event =
  user_id :: string
  event_type :: string
  message :: message_val
  source :: "string option"
  priority_hint :: string
  channel :: string
  timestamp :: "timeval option"
  dedupe_key :: "string option"
  expires_at :: "timeval option"

text \<open>\<open>x || ''\<close> and the truth value of an optional string; \<open>${x}\<close> of a missing field.\<close>

definition or_empty :: "string option \<Rightarrow> string" where
  "or_empty x = (case x of None \<Rightarrow> '''' | Some s \<Rightarrow> s)"

definition truthy :: "string option \<Rightarrow> bool" where
  "truthy x \<longleftrightarrow> (case x of None \<Rightarrow> False | Some s \<Rightarrow> s \<noteq> '''')"

definition interpolate :: "string option \<Rightarrow> string" where
  "interpolate x = (case x of None \<Rightarrow> ''undefined'' | Some s \<Rightarrow> s)"

datatype decision = NOW | LATER | NEVER

definition decision_name :: "decision \<Rightarrow> string" where
  "decision_name d = (case d of NOW \<Rightarrow> ''NOW'' | LATER \<Rightarrow> ''LATER'' | NEVER \<Rightarrow> ''NEVER'')"

section \<open>scorer.js\<close>

definition PRIORITY_SCORES :: "(string \<times> int) list" where
  "PRIORITY_SCORES = [(''CRITICAL'', 40), (''HIGH'', 25), (''MEDIUM'', 15), (''LOW'', 5)]"

definition EVENT_TYPE_SCORES :: "(string \<times> int) list" where
  "EVENT_TYPE_SCORES =
     [(''security_alert'', 30), (''direct_message'', 25), (''payment_alert'', 28),
      (''reminder'', 20), (''system_alert'', 18), (''system_update'', 10),
      (''promotion'', 5), (''low_value_promo'', 2), (''digest'', 3)]"

definition CHANNEL_SCORES :: "(string \<times> int) list" where
  "CHANNEL_SCORES = [(''sms'', 10), (''push'', 8), (''email'', 5), (''in-app'', 3)]"

text \<open>\<open>TABLE[key] ?? dflt\<close>, for keys that are not members of \<open>Object.prototype\<close>.\<close>

definition lookup_or :: "(string \<times> int) list \<Rightarrow> string \<Rightarrow> int \<Rightarrow> int" where
  "lookup_or table k dflt = (case map_of table k of Some v \<Rightarrow> v | None \<Rightarrow> dflt)"

definition freshnessScore :: "instant \<Rightarrow> timeval option \<Rightarrow> int" where
  "freshnessScore now ts =
     (case ts of
        None \<Rightarrow> 5
      | Some InvalidDate \<Rightarrow> 0
      | Some (Time t) \<Rightarrow>
          (let ageMin = real_of_int (now - t) / 60000
           in if ageMin < 1 then 10
              else if ageMin < 5 then 8
              else if ageMin < 15 then 5
              else if ageMin < 60 then 2
              else 0))"

definition computeScore :: "instant \<Rightarrow> event \<Rightarrow> int" where
  "computeScore now e =
     (let p = lookup_or PRIORITY_SCORES (priority_hint e) 10;
          t = lookup_or EVENT_TYPE_SCORES (event_type e) 5;
          c = lookup_or CHANNEL_SCORES (channel e) 3;
          f = freshnessScore now (timestamp e)
      in min 75 (p + t + c + f))"

section \<open>conflictResolver.js\<close>

datatype level = LOW | MEDIUM | HIGH | MAXED | UNKNOWN

definition level_name :: "level \<Rightarrow> string" where
  "level_name l =
     (case l of LOW \<Rightarrow> ''LOW'' | MEDIUM \<Rightarrow> ''MEDIUM'' | HIGH \<Rightarrow> ''HIGH''
      | MAXED \<Rightarrow> ''MAXED'' | UNKNOWN \<Rightarrow> ''UNKNOWN'')"

record fatigue =
  count :: int
  penalty :: int
  level :: level

text \<open>
  The object \<open>{resolved, decision, reason}\<close>: \<open>resolved: true\<close> comes with a decision
  and a reason, \<open>resolved: false\<close> with \<open>null\<close> and the empty reason.
\<close>

datatype conflict = Resolved decision string | Unresolved

definition resolved :: "conflict \<Rightarrow> bool" where
  "resolved c = (case c of Resolved d r \<Rightarrow> True | Unresolved \<Rightarrow> False)"

definition conflict_decision :: "conflict \<Rightarrow> decision option" where
  "conflict_decision c = (case c of Resolved d r \<Rightarrow> Some d | Unresolved \<Rightarrow> None)"

definition conflict_reason :: "conflict \<Rightarrow> string" where
  "conflict_reason c = (case c of Resolved d r \<Rightarrow> r | Unresolved \<Rightarrow> '''')"

definition isNoisySource :: "string option \<Rightarrow> bool" where
  "isNoisySource src \<longleftrightarrow>
     (case src of
        None \<Rightarrow> False
      | Some s \<Rightarrow> s \<in> set [''marketing-svc'', ''promo-service'', ''analytics-alerts'',
                           ''noisy-svc'', ''bulk-sender''])"

definition resolveConflict :: "event \<Rightarrow> int \<Rightarrow> fatigue \<Rightarrow> conflict" where
  "resolveConflict e score f =
     (if priority_hint e = ''HIGH'' \<and> level f = MAXED then
        Resolved LATER
          (''CONFLICT RESOLVED: HIGH priority but user fatigue MAXED ('' @ show_int (count f)
           @ ''/hr). '' @ ''Deferred 15 min '' @ emdash @ '' not silently dropped.'')
      else if priority_hint e = ''HIGH'' \<and> level f = HIGH \<and> isNoisySource (source e) then
        Resolved LATER
          (''CONFLICT RESOLVED: HIGH priority but \"'' @ interpolate (source e)
           @ ''\" is a noisy source '' @ ''and user fatigue is HIGH. Short defer applied.'')
      else if priority_hint e = ''MEDIUM'' \<and> level f = MAXED then
        Resolved NEVER
          (''CONFLICT RESOLVED: MEDIUM priority suppressed '' @ emdash
           @ '' user at fatigue cap '' @ ''('' @ show_int (count f) @ ''/'' @ show_int 5
           @ '' per hr). Sending now would worsen alert fatigue.'')
      else if priority_hint e = ''LOW'' \<and> score \<ge> 60 \<and> level f = MAXED then
        Resolved LATER
          (''CONFLICT RESOLVED: Score '' @ show_int score
           @ '' suggests NOW, but LOW priority + MAXED '' @ ''fatigue. Deferred to avoid noise.'')
      else Unresolved)"

section \<open>The Redis server behind redisService.js\<close>

text \<open>
  The server is no part of the repository; it is modelled as far as the commands go that
  the engine sends (\<open>GET\<close>, \<open>SET .. EX\<close>, \<open>ZADD\<close>, \<open>ZRANGE 0 -1\<close>, \<open>ZCOUNT\<close>,
  \<open>ZREMRANGEBYSCORE -inf\<close>, \<open>EXPIRE\<close>). One keyspace holds strings and sorted sets; a key
  with a deadline is gone once the deadline is reached. \<open>getRedis()\<close> hands out the client
  when the connection is ready and a stub of no-ops otherwise; a client whose connection
  has failed rejects every command. One evaluation sees one status throughout.
\<close>

datatype rval = RString string | RZSet "(string \<times> int) list"

record rentry =
  rval :: rval
  deadline :: "instant option"

datatype redis_status = Ready | Offline | Broken

datatype fault = TypeError string | Error string

text \<open>The calls that the claims speak about are logged in the order they are made.\<close>

datatype call = StoreFingerprint | IncrementCounter

datatype stage_value = SText string | SFlag bool

record audit_record =
  a_audit_id :: string
  a_event_id :: string
  a_user_id :: string
  a_event_type :: string
  a_decision :: decision
  a_score :: int
  a_reason :: string
  a_stages :: "(string \<times> stage_value) list"
  a_rules_matched :: "string list"
  a_schedule_at :: "instant option"
  a_created_at :: string

record deferred =
  d_event :: event
  d_scheduleAt :: instant
  d_auditId :: string
  d_queuedAt :: string
  d_status :: string

record world =
  redis_status :: redis_status
  db :: "string \<rightharpoonup> rentry"
  auditStore :: "string \<rightharpoonup> audit_record"
  deferredQueue :: "deferred list"
  invoked :: "call list"

definition wrongtype :: fault where
  "wrongtype = Error ''WRONGTYPE Operation against a key holding the wrong kind of value''"

definition conn_closed :: fault where
  "conn_closed = Error ''Connection is closed.''"

definition live_value :: "instant \<Rightarrow> world \<Rightarrow> string \<Rightarrow> rval option" where
  "live_value t w k =
     (case db w k of
        None \<Rightarrow> None
      | Some en \<Rightarrow>
          (case deadline en of
             None \<Rightarrow> Some (rval en)
           | Some d \<Rightarrow> if t < d then Some (rval en) else None))"

definition live_deadline :: "instant \<Rightarrow> world \<Rightarrow> string \<Rightarrow> instant option" where
  "live_deadline t w k =
     (case db w k of
        None \<Rightarrow> None
      | Some en \<Rightarrow>
          (case deadline en of None \<Rightarrow> None | Some d \<Rightarrow> if t < d then Some d else None))"

definition redis_get :: "instant \<Rightarrow> world \<Rightarrow> string \<Rightarrow> fault + string option" where
  "redis_get t w k =
     (case redis_status w of
        Offline \<Rightarrow> Inr None
      | Broken \<Rightarrow> Inl conn_closed
      | Ready \<Rightarrow>
          (case live_value t w k of
             None \<Rightarrow> Inr None
           | Some (RString v) \<Rightarrow> Inr (Some v)
           | Some (RZSet ms) \<Rightarrow> Inl wrongtype))"

definition redis_set :: "instant \<Rightarrow> string \<Rightarrow> string \<Rightarrow> int \<Rightarrow> world \<Rightarrow> fault + world" where
  "redis_set t k v ttl w =
     (case redis_status w of
        Offline \<Rightarrow> Inr w
      | Broken \<Rightarrow> Inl conn_closed
      | Ready \<Rightarrow>
          Inr (w\<lparr>db := (db w)(k \<mapsto> \<lparr>rval = RString v, deadline = Some (t + ttl * 1000)\<rparr>)\<rparr>))"

definition redis_zadd :: "instant \<Rightarrow> string \<Rightarrow> int \<Rightarrow> string \<Rightarrow> world \<Rightarrow> fault + world" where
  "redis_zadd t k sc member w =
     (case redis_status w of
        Offline \<Rightarrow> Inr w
      | Broken \<Rightarrow> Inl conn_closed
      | Ready \<Rightarrow>
          (case live_value t w k of
             None \<Rightarrow>
               Inr (w\<lparr>db := (db w)(k \<mapsto> \<lparr>rval = RZSet [(member, sc)], deadline = None\<rparr>)\<rparr>)
           | Some (RString v) \<Rightarrow> Inl wrongtype
           | Some (RZSet ms) \<Rightarrow>
               Inr (w\<lparr>db := (db w)(k \<mapsto>
                      \<lparr>rval = RZSet (filter (\<lambda>(m, s). m \<noteq> member) ms @ [(member, sc)]),
                       deadline = live_deadline t w k\<rparr>)\<rparr>)))"

definition redis_expire :: "instant \<Rightarrow> string \<Rightarrow> int \<Rightarrow> world \<Rightarrow> fault + world" where
  "redis_expire t k secs w =
     (case redis_status w of
        Offline \<Rightarrow> Inr w
      | Broken \<Rightarrow> Inl conn_closed
      | Ready \<Rightarrow>
          (case live_value t w k of
             None \<Rightarrow> Inr w
           | Some v \<Rightarrow>
               Inr (w\<lparr>db := (db w)(k \<mapsto> \<lparr>rval = v, deadline = Some (t + secs * 1000)\<rparr>)\<rparr>)))"

text \<open>\<open>ZREMRANGEBYSCORE key -inf hi\<close>; a sorted set left empty is deleted.\<close>

definition redis_zremrangebyscore :: "instant \<Rightarrow> string \<Rightarrow> int \<Rightarrow> world \<Rightarrow> fault + world" where
  "redis_zremrangebyscore t k hi w =
     (case redis_status w of
        Offline \<Rightarrow> Inr w
      | Broken \<Rightarrow> Inl conn_closed
      | Ready \<Rightarrow>
          (case live_value t w k of
             None \<Rightarrow> Inr w
           | Some (RString v) \<Rightarrow> Inl wrongtype
           | Some (RZSet ms) \<Rightarrow>
               (let kept = filter (\<lambda>(m, s). \<not> s \<le> hi) ms
                in if kept = [] then Inr (w\<lparr>db := (db w)(k := None)\<rparr>)
                   else Inr (w\<lparr>db := (db w)(k \<mapsto>
                          \<lparr>rval = RZSet kept, deadline = live_deadline t w k\<rparr>)\<rparr>))))"

definition redis_zcount :: "instant \<Rightarrow> world \<Rightarrow> string \<Rightarrow> int \<Rightarrow> int \<Rightarrow> fault + int" where
  "redis_zcount t w k lo hi =
     (case redis_status w of
        Offline \<Rightarrow> Inr 0
      | Broken \<Rightarrow> Inl conn_closed
      | Ready \<Rightarrow>
          (case live_value t w k of
             None \<Rightarrow> Inr 0
           | Some (RString v) \<Rightarrow> Inl wrongtype
           | Some (RZSet ms) \<Rightarrow> Inr (int (length (filter (\<lambda>(m, s). lo \<le> s \<and> s \<le> hi) ms)))))"

text \<open>\<open>ZRANGE key 0 -1\<close>: the members by ascending score, equal scores by member.\<close>

definition redis_zrange :: "instant \<Rightarrow> world \<Rightarrow> string \<Rightarrow> fault + string list" where
  "redis_zrange t w k =
     (case redis_status w of
        Offline \<Rightarrow> Inr []
      | Broken \<Rightarrow> Inl conn_closed
      | Ready \<Rightarrow>
          (case live_value t w k of
             None \<Rightarrow> Inr []
           | Some (RString v) \<Rightarrow> Inl wrongtype
           | Some (RZSet ms) \<Rightarrow> Inr (map fst (sort_key (\<lambda>(m, s). (s, m)) ms))))"

text \<open>
  \<open>try { a; b; c } catch (err) { .. }\<close> over commands that change the store: the
  commands run in order up to the first one that rejects; what was written stays.
\<close>

fun run_ops :: "(world \<Rightarrow> fault + world) list \<Rightarrow> world \<Rightarrow> fault option \<times> world" where
  "run_ops [] w = (None, w)"
| "run_ops (f # fs) w = (case f w of Inl err \<Rightarrow> (Some err, w) | Inr w' \<Rightarrow> run_ops fs w')"

section \<open>What one evaluation reads from its surroundings\<close>

record cond =
  cond_event_type :: "string option"
  cond_channel :: "string option"
  cond_source :: "string option"
  cond_priority :: "string option"

record rule =
  rule_id :: string
  condition :: cond
  action :: string
  priority :: "int option"

text \<open>
  The outcome of the \<open>fetch\<close> to the AI service: aborted by the timer, rejected with a
  fault, or a response with its status and the \<open>score_adjustment\<close> of its body.
\<close>

datatype ai_http = AiAbort | AiRejects fault | AiResponse nat "int option"

text \<open>
  The clock, the random numbers, the UUIDs, the digests of \<open>crypto\<close>, the rule snapshot
  that \<open>getRules\<close> returns and the configuration from the process environment. The
  evaluation reads the clock at one instant. \<open>Date_today_0800\<close> and
  \<open>Date_tomorrow_0800\<close> are what \<open>setHours(8, 0, 0, 0)\<close> and the following
  \<open>setDate(getDate() + 1)\<close> give in the local calendar.
\<close>

record ambient =
  Date_now :: instant
  Date_getHours :: nat
  Date_today_0800 :: instant
  Date_tomorrow_0800 :: instant
  Date_toISOString :: "instant \<Rightarrow> string"
  Math_random_window :: real
  Math_random_jitter :: real
  uuidv4_audit :: string
  uuidv4_event :: string
  sha256_hex :: "string \<Rightarrow> string"
  md5_hex :: "string \<Rightarrow> string"
  cachedRules :: "rule list"
  AI_SERVICE_URL :: "string option"
  fetch_outcome :: ai_http
  AI_SERVICE_TIMEOUT_MS :: "int option"
  MAX_NOTIFS_PER_HOUR :: "int option"

text \<open>\<open>parseInt(process.env.X) || dflt\<close>.\<close>

definition parsed_or :: "int option \<Rightarrow> int \<Rightarrow> int" where
  "parsed_or x dflt = (case x of None \<Rightarrow> dflt | Some n \<Rightarrow> if n = 0 then dflt else n)"

section \<open>deduplicator.js\<close>

definition TTL_TRANSACTIONAL :: int where "TTL_TRANSACTIONAL = 600"
definition TTL_PROMO :: int where "TTL_PROMO = 86400"
definition NEAR_DUP_WINDOW :: int where "NEAR_DUP_WINDOW = 600"
definition HAMMING_THRESHOLD :: nat where "HAMMING_THRESHOLD = 5"

text \<open>\<open>event.message || ''\<close> for a message that is absent or a text.\<close>

definition message_text :: "message_val \<Rightarrow> string" where
  "message_text m = (case m of Text s \<Rightarrow> s | _ \<Rightarrow> '''')"

text \<open>
  \<open>buildFingerprint\<close>: the digest is the parameter \<open>H\<close> (\<open>crypto\<close>'s SHA-256 in
  hexadecimal). A message that is no string has no \<open>toLowerCase\<close>, and the call throws.
\<close>

definition buildFingerprint :: "(string \<Rightarrow> string) \<Rightarrow> event \<Rightarrow> fault + string" where
  "buildFingerprint H e =
     (if message e = NonText
      then Inl (TypeError ''(event.message || \"\").toLowerCase is not a function'')
      else
        (let msg = trim (collapse_ws (toLowerCase (message_text (message e))));
             raw = user_id e @ ''|'' @ event_type e @ ''|'' @ msg @ ''|'' @ or_empty (source e)
         in Inr (H raw)))"


text \<open>The class \<open>\w\<close> and \<open>text.split(/\W+/)\<close>.\<close>

definition isWord :: "char \<Rightarrow> bool" where
  "isWord c \<longleftrightarrow>
     (let n = of_char c :: nat
      in (48 \<le> n \<and> n \<le> 57) \<or> (65 \<le> n \<and> n \<le> 90) \<or> n = 95 \<or> (97 \<le> n \<and> n \<le> 122))"

function split_nonword :: "string \<Rightarrow> string \<Rightarrow> string list" where
  "split_nonword [] cur = [rev cur]"
| "split_nonword (c # cs) cur =
     (if isWord c then split_nonword cs (c # cur)
      else rev cur # split_nonword (dropWhile (\<lambda>x. \<not> isWord x) cs) [])"
  by pat_completeness auto
termination
  by (relation "measure (\<lambda>(s, cur). length s)")
     (auto simp: le_imp_less_Suc length_dropWhile_le)

text \<open>
  \<open>BigInt('0x' + digest.slice(0, 16))\<close>; the digest consists of hexadecimal digits.
\<close>

definition hex_digit :: "char \<Rightarrow> int" where
  "hex_digit c =
     (let n = of_char c :: nat
      in if 48 \<le> n \<and> n \<le> 57 then int n - 48
         else if 97 \<le> n \<and> n \<le> 102 then int n - 87
         else if 65 \<le> n \<and> n \<le> 70 then int n - 55
         else 0)"

definition parse_hex :: "string \<Rightarrow> int" where
  "parse_hex s = foldl (\<lambda>acc c. 16 * acc + hex_digit c) 0 s"

definition computeSimHash :: "(string \<Rightarrow> string) \<Rightarrow> string \<Rightarrow> int" where
  "computeSimHash M text =
     (let tokens = filter (\<lambda>t. length t > 2) (split_nonword (toLowerCase text) []);
          v = foldl (\<lambda>v token.
                 let h = parse_hex (take 16 (M token))
                 in map (\<lambda>i. v ! i + (if (drop_bit i h) AND 1 = 1 then 1 else - 1)) [0..<64])
               (replicate 64 (0::int)) tokens
      in foldl (\<lambda>hash i. if v ! i > 0 then hash OR push_bit i 1 else hash) 0 [0..<64])"

function hamming_loop :: "int \<Rightarrow> nat \<Rightarrow> nat" where
  "hamming_loop xr cnt =
     (if xr > 0 then hamming_loop (drop_bit 1 xr) (cnt + nat (xr AND 1)) else cnt)"
  by pat_completeness auto
termination
  by (relation "measure (\<lambda>(xr, cnt). nat xr)") (auto simp: drop_bit_eq_div)

declare hamming_loop.simps [simp del]

definition hammingDistance :: "int \<Rightarrow> int \<Rightarrow> nat" where
  "hammingDistance a b = hamming_loop (a XOR b) 0"

text \<open>
  \<open>BigInt(s)\<close> of a stored member: decimal digits with an optional minus sign, the empty
  string as zero; any other text is a SyntaxError (the members this program writes are
  decimal).
\<close>

definition isDigit :: "char \<Rightarrow> bool" where
  "isDigit c \<longleftrightarrow> (48::nat) \<le> of_char c \<and> of_char c \<le> (57::nat)"

definition parse_digits :: "string \<Rightarrow> int option" where
  "parse_digits s =
     (if s \<noteq> [] \<and> list_all isDigit s
      then Some (foldl (\<lambda>acc c. 10 * acc + (int (of_char c) - 48)) 0 s)
      else None)"

definition BigInt :: "string \<Rightarrow> int option" where
  "BigInt s =
     (case s of
        [] \<Rightarrow> Some 0
      | c # cs \<Rightarrow>
          if c = CHR ''-'' then map_option uminus (parse_digits cs) else parse_digits s)"

definition isPromo :: "string \<Rightarrow> bool" where
  "isPromo t \<longleftrightarrow> t \<in> set [''promotion'', ''low_value_promo'']"

definition redisGet :: "ambient \<Rightarrow> world \<Rightarrow> string \<Rightarrow> string option" where
  "redisGet A w key = (case redis_get (Date_now A) w key of Inl err \<Rightarrow> None | Inr v \<Rightarrow> v)"

record near =
  found :: bool
  distance :: "nat option"

fun near_loop :: "int \<Rightarrow> string list \<Rightarrow> near" where
  "near_loop current [] = \<lparr>found = False, distance = None\<rparr>"
| "near_loop current (s # stored) =
     (case BigInt s of
        None \<Rightarrow> \<lparr>found = False, distance = None\<rparr>
      | Some b \<Rightarrow>
          (let dist = hammingDistance current b
           in if dist < HAMMING_THRESHOLD then \<lparr>found = True, distance = Some dist\<rparr>
              else near_loop current stored))"

text \<open>
  For a message that is no string the function returns \<open>found: false\<close> as well: either
  its \<open>length\<close> is below 10, or \<open>computeSimHash\<close> throws inside the \<open>try\<close>.
\<close>

definition checkNearDuplicate :: "ambient \<Rightarrow> world \<Rightarrow> event \<Rightarrow> near" where
  "checkNearDuplicate A w e =
     (if message e = NonText then \<lparr>found = False, distance = None\<rparr>
      else if length (message_text (message e)) < 10 then \<lparr>found = False, distance = None\<rparr>
      else
        (let simKey = ''sim:'' @ user_id e @ '':'' @ event_type e
         in case redis_zrange (Date_now A) w simKey of
              Inl err \<Rightarrow> \<lparr>found = False, distance = None\<rparr>
            | Inr stored \<Rightarrow>
                near_loop (computeSimHash (md5_hex A) (message_text (message e))) stored))"

record dup_result =
  isDuplicate :: bool
  dup_type :: "string option"
  detail :: "string option"

definition checkDuplicate :: "ambient \<Rightarrow> world \<Rightarrow> event \<Rightarrow> fault + dup_result" where
  "checkDuplicate A w e =
     (if truthy (dedupe_key e) \<and> truthy (redisGet A w (''dedup:key:'' @ or_empty (dedupe_key e)))
      then Inr \<lparr>isDuplicate = True, dup_type = Some ''EXACT_KEY'',
                detail = Some (''dedupe_key='' @ or_empty (dedupe_key e))\<rparr>
      else
        (case buildFingerprint (sha256_hex A) e of
           Inl err \<Rightarrow> Inl err
         | Inr fp \<Rightarrow>
             if truthy (redisGet A w (''dedup:fp:'' @ fp))
             then Inr \<lparr>isDuplicate = True, dup_type = Some ''EXACT_FINGERPRINT'',
                       detail = Some (''sha256='' @ take 16 fp @ ''...'')\<rparr>
             else
               (let nr = checkNearDuplicate A w e
                in if found nr
                   then Inr \<lparr>isDuplicate = True, dup_type = Some ''NEAR_DUPLICATE'',
                             detail = Some (''hamming_dist='' @
                               (case distance nr of None \<Rightarrow> ''undefined''
                                | Some d \<Rightarrow> show_nat d))\<rparr>
                   else Inr \<lparr>isDuplicate = False, dup_type = None, detail = None\<rparr>)))"

text \<open>
  \<open>storeFingerprint\<close>: the fingerprint is built before the \<open>try\<close>, so its fault
  escapes; a fault of a Redis command is swallowed.
\<close>

definition storeFingerprint :: "ambient \<Rightarrow> world \<Rightarrow> event \<Rightarrow> fault option \<times> world" where
  "storeFingerprint A w e =
     (let w0 = w\<lparr>invoked := invoked w @ [StoreFingerprint]\<rparr>;
          ttl = (if isPromo (event_type e) then TTL_PROMO else TTL_TRANSACTIONAL);
          t = Date_now A
      in case buildFingerprint (sha256_hex A) e of
           Inl err \<Rightarrow> (Some err, w0)
         | Inr fp \<Rightarrow>
             (let simhash = computeSimHash (md5_hex A) (message_text (message e));
                  simKey = ''sim:'' @ user_id e @ '':'' @ event_type e
              in (None, snd (run_ops
                   ([redis_set t (''dedup:fp:'' @ fp) ''1'' ttl]
                    @ (if truthy (dedupe_key e)
                       then [redis_set t (''dedup:key:'' @ or_empty (dedupe_key e)) ''1'' ttl]
                       else [])
                    @ [redis_zadd t simKey t (show_int simhash),
                       redis_expire t simKey NEAR_DUP_WINDOW,
                       redis_zremrangebyscore t simKey (t - NEAR_DUP_WINDOW * 1000)])
                   w0))))"

section \<open>fatigueGuard.js\<close>

definition CAPS_total :: "ambient \<Rightarrow> int" where
  "CAPS_total A = parsed_or (MAX_NOTIFS_PER_HOUR A) 5"

definition W1H :: int where "W1H = 3600"
definition W4H :: int where "W4H = 14400"

definition getFatiguePenalty :: "ambient \<Rightarrow> world \<Rightarrow> string \<Rightarrow> string option \<Rightarrow> fatigue" where
  "getFatiguePenalty A w userId src =
     (let t = Date_now A
      in case redis_zcount t w (''freq:'' @ userId @ '':total'') (t - W1H * 1000) t of
           Inl err \<Rightarrow> \<lparr>count = 0, penalty = 0, level = UNKNOWN\<rparr>
         | Inr cnt \<Rightarrow>
             (let ratio = real_of_int cnt / real_of_int (CAPS_total A);
                  pen = (if ratio \<ge> 1.0 then 30
                         else if ratio \<ge> 0.8 then 20
                         else if ratio \<ge> 0.5 then 10
                         else if cnt \<ge> 2 then 5
                         else (0::int));
                  lev = (if pen = 0 then LOW
                         else if pen \<le> 10 then MEDIUM
                         else if pen \<le> 20 then HIGH
                         else MAXED)
              in \<lparr>count = cnt, penalty = pen, level = lev\<rparr>))"

definition incrementCounter :: "ambient \<Rightarrow> world \<Rightarrow> event \<Rightarrow> world" where
  "incrementCounter A w e =
     (let w0 = w\<lparr>invoked := invoked w @ [IncrementCounter]\<rparr>;
          t = Date_now A;
          member = show_int t @ '':'' @ event_type e;
          totalKey = ''freq:'' @ user_id e @ '':total'';
          srcKey = ''freq:'' @ user_id e @ '':'' @ interpolate (source e);
          promoKey = ''freq:'' @ user_id e @ '':promo''
      in snd (run_ops
           ([redis_zadd t totalKey t member,
             redis_expire t totalKey W4H,
             redis_zremrangebyscore t totalKey (t - W1H * 1000),
             redis_zadd t srcKey t member,
             redis_expire t srcKey W4H,
             redis_zremrangebyscore t srcKey (t - W1H * 1000)]
            @ (if event_type e \<in> set [''promotion'', ''low_value_promo'']
               then [redis_zadd t promoKey t member,
                     redis_expire t promoKey W4H,
                     redis_zremrangebyscore t promoKey (t - W4H * 1000)]
               else []))
           w0))"

section \<open>ruleService.js\<close>

definition field_matches :: "string option \<Rightarrow> string option \<Rightarrow> bool" where
  "field_matches cnd v \<longleftrightarrow> \<not> truthy cnd \<or> cnd = Some ''*'' \<or> cnd = v"

definition matchesCondition :: "event \<Rightarrow> cond \<Rightarrow> bool" where
  "matchesCondition e c \<longleftrightarrow>
     list_all (\<lambda>(cnd, v). field_matches cnd v)
       [(cond_event_type c, Some (event_type e)),
        (cond_channel c, Some (channel e)),
        (cond_source c, source e),
        (cond_priority c, Some (priority_hint e))]"

definition priority_or_0 :: "rule \<Rightarrow> int" where
  "priority_or_0 r = (case priority r of None \<Rightarrow> 0 | Some p \<Rightarrow> p)"

text \<open>The stable sort with the comparator \<open>(b.priority || 0) - (a.priority || 0)\<close>.\<close>

definition matchRules :: "event \<Rightarrow> rule list \<Rightarrow> rule list" where
  "matchRules e rules =
     sort_key (\<lambda>r. - priority_or_0 r) (filter (\<lambda>r. matchesCondition e (condition r)) rules)"

definition getRules :: "ambient \<Rightarrow> rule list" where
  "getRules A = cachedRules A"

section \<open>aiService.js\<close>

text \<open>
  The \<open>score_adjustment\<close> of a response is taken to be a whole number, as the mock
  score is; an absent one counts as 0.
\<close>

definition fault_message :: "fault \<Rightarrow> string" where
  "fault_message err = (case err of TypeError m \<Rightarrow> m | Error m \<Rightarrow> m)"

definition TIMEOUT_MS :: "ambient \<Rightarrow> int" where
  "TIMEOUT_MS A = parsed_or (AI_SERVICE_TIMEOUT_MS A) 200"

definition getMockAiScore :: "ambient \<Rightarrow> event \<Rightarrow> int" where
  "getMockAiScore A e =
     (let base = lookup_or
                   [(''security_alert'', 12), (''direct_message'', 10), (''payment_alert'', 11),
                    (''reminder'', 8), (''system_update'', 2), (''promotion'', - 5),
                    (''low_value_promo'', - 8)]
                   (event_type e) 0;
          jitter = \<lfloor>Math_random_jitter A * 6\<rfloor> - 3
      in max (- 10) (min 15 (base + jitter)))"

definition getAiScore :: "ambient \<Rightarrow> event \<Rightarrow> fault + int" where
  "getAiScore A e =
     (if \<not> truthy (AI_SERVICE_URL A) then Inr (getMockAiScore A e)
      else
        (case fetch_outcome A of
           AiAbort \<Rightarrow> Inl (Error (''AI timeout (>'' @ show_int (TIMEOUT_MS A) @ ''ms)''))
         | AiRejects err \<Rightarrow> Inl err
         | AiResponse status adj \<Rightarrow>
             if \<not> (200 \<le> status \<and> status \<le> 299)
             then Inl (Error (''AI service HTTP '' @ show_nat status))
             else Inr (max (- 10) (min 15 (case adj of None \<Rightarrow> 0 | Some a \<Rightarrow> a)))))"

section \<open>auditService.js and schedulerService.js\<close>

text \<open>
  \<open>writeAudit\<close> stores the record under its id (the per-user history it also keeps is
  left out: no claim reads it); \<open>scheduleDeferred\<close> appends to the queue. Neither throws.
\<close>

definition writeAudit :: "world \<Rightarrow> audit_record \<Rightarrow> world" where
  "writeAudit w r = w\<lparr>auditStore := (auditStore w)(a_audit_id r \<mapsto> r)\<rparr>"

definition scheduleDeferred :: "ambient \<Rightarrow> world \<Rightarrow> event \<Rightarrow> instant \<Rightarrow> string \<Rightarrow> world" where
  "scheduleDeferred A w e scheduleAt auditId =
     w\<lparr>deferredQueue := deferredQueue w @
          [\<lparr>d_event = e, d_scheduleAt = scheduleAt, d_auditId = auditId,
            d_queuedAt = Date_toISOString A (Date_now A), d_status = ''PENDING''\<rparr>]\<rparr>"

section \<open>classifier.js\<close>

text \<open>
  The decision returned to the caller. \<open>schedule_at\<close> is an ISO-8601 text in the source;
  the model keeps the instant that the text denotes, and renders it with
  \<open>Date_toISOString\<close> where the source interpolates it.
\<close>

record result =
  decision :: decision
  score :: int
  reason :: string
  schedule_at :: "instant option"
  audit_id :: string

record dnd =
  inDND :: bool
  window :: string

definition checkDND :: "ambient \<Rightarrow> dnd" where
  "checkDND A =
     (let hour = Date_getHours A
      in \<lparr>inDND = (hour \<ge> 23 \<or> hour < 8), window = ''23:00'' @ endash @ ''08:00''\<rparr>)"

definition getNextOpenWindow :: "ambient \<Rightarrow> instant" where
  "getNextOpenWindow A =
     (if Date_getHours A \<ge> 8 then Date_tomorrow_0800 A else Date_today_0800 A)"

definition getShortDefer :: "ambient \<Rightarrow> instant" where
  "getShortDefer A = Date_now A + 15 * 60 * 1000"

text \<open>
  \<open>new Date(x)\<close> of a number: the fraction is cut off towards zero. Instants are taken
  within the range of \<open>Date\<close>, where \<open>toISOString\<close> does not throw.
\<close>

definition TimeClip :: "real \<Rightarrow> instant" where
  "TimeClip x = (if x \<ge> 0 then \<lfloor>x\<rfloor> else \<lceil>x\<rceil>)"

definition getOptimalWindow :: "ambient \<Rightarrow> string \<Rightarrow> instant" where
  "getOptimalWindow A eventType =
     (let delayMs = (if eventType \<in> set [''promotion'', ''low_value_promo'', ''system_update'']
                     then (2 + Math_random_window A * 3) * 3600000
                     else (15 + Math_random_window A * 30) * 60000)
      in TimeClip (real_of_int (Date_now A) + delayMs))"

definition finalize ::
  "ambient \<Rightarrow> world \<Rightarrow> decision \<Rightarrow> int \<Rightarrow> string \<Rightarrow> instant option \<Rightarrow>
   (string \<times> stage_value) list \<Rightarrow> string list \<Rightarrow> string \<Rightarrow> event \<Rightarrow> result \<times> world" where
  "finalize A w dec sc rsn scheduleAt stages ruleMatches auditId e =
     (let res = \<lparr>decision = dec, score = sc, reason = rsn, schedule_at = scheduleAt,
                 audit_id = auditId\<rparr>;
          w1 = writeAudit w
                 \<lparr>a_audit_id = auditId,
                  a_event_id = (if truthy (dedupe_key e) then or_empty (dedupe_key e)
                                else uuidv4_event A),
                  a_user_id = user_id e,
                  a_event_type = event_type e,
                  a_decision = dec,
                  a_score = sc,
                  a_reason = rsn,
                  a_stages = stages,
                  a_rules_matched = ruleMatches,
                  a_schedule_at = scheduleAt,
                  a_created_at = Date_toISOString A (Date_now A)\<rparr>;
          w2 = (case scheduleAt of
                  Some s \<Rightarrow> if dec = LATER then scheduleDeferred A w1 e s auditId else w1
                | None \<Rightarrow> w1)
      in (res, w2))"

definition is_expired :: "ambient \<Rightarrow> event \<Rightarrow> bool" where
  "is_expired A e \<longleftrightarrow> (case expires_at e of Some (Time t) \<Rightarrow> t < Date_now A | _ \<Rightarrow> False)"

definition interp_null :: "string option \<Rightarrow> string" where
  "interp_null x = (case x of None \<Rightarrow> ''null'' | Some s \<Rightarrow> s)"

fun join :: "string \<Rightarrow> string list \<Rightarrow> string" where
  "join sep [] = ''''"
| "join sep [x] = x"
| "join sep (x # y # ys) = x @ sep @ join sep (y # ys)"

definition returned :: "result \<times> world \<Rightarrow> (fault + result) \<times> world" where
  "returned rw = (Inr (fst rw), snd rw)"

text \<open>The body of the \<open>try\<close> block of \<open>evaluate\<close>: the value returned or the fault thrown.\<close>

definition pipeline :: "ambient \<Rightarrow> world \<Rightarrow> event \<Rightarrow> (fault + result) \<times> world" where
  "pipeline A w e =
  (let auditId = ''aud_'' @ take 8 (uuidv4_audit A) in
   if is_expired A e then
     returned (finalize A w NEVER 0
       ''Event expired (expires_at in the past). Delivery has no value.''
       None [(''expiry'', SText ''EXPIRED'')] [] auditId e)
   else
   (case checkDuplicate A w e of
      Inl err \<Rightarrow> (Inl err, w)
    | Inr dup \<Rightarrow>
   (let stages2 = [(''expiry'', SText ''VALID''),
                   (''dedup'', SText (if isDuplicate dup
                      then interp_null (dup_type dup) @ '': '' @ interp_null (detail dup)
                      else ''PASS''))] in
    if isDuplicate dup then
      returned (finalize A w NEVER 0
        (''Duplicate suppressed ('' @ interp_null (dup_type dup) @ ''): ''
         @ interp_null (detail dup))
        None stages2 [] auditId e)
    else if priority_hint e = ''CRITICAL'' then
      (case storeFingerprint A w e of
         (Some err, w1) \<Rightarrow> (Inl err, w1)
       | (None, w1) \<Rightarrow>
           returned (finalize A (incrementCounter A w1 e) NOW 97
             (''CRITICAL priority '' @ emdash @ '' bypasses all guards and sends immediately.'')
             None (stages2 @ [(''rules'', SText ''CRITICAL_OVERRIDE'')])
             [''critical-always-now''] auditId e))
    else
   (let matched = matchRules e (getRules A);
        ruleMatches = map rule_id matched in
    case find (\<lambda>r. action r = ''SUPPRESS'') matched of
      Some suppressRule \<Rightarrow>
        returned (finalize A w NEVER 0
          (''Suppressed by operator rule: '' @ rule_id suppressRule)
          None (stages2 @ [(''rules'', SText (''SUPPRESSED by rule: '' @ rule_id suppressRule))])
          ruleMatches auditId e)
    | None \<Rightarrow>
   (let stages3 = stages2 @ [(''rules'', SText (if length ruleMatches > 0
                      then ''Matched: ['' @ join '', '' ruleMatches @ '']''
                      else ''No rules matched''))];
        dnd = checkDND A;
        stages4 = stages3 @ [(''dnd'', SText (if inDND dnd
                      then ''IN_DND ('' @ window dnd @ '')'' else ''CLEAR''))] in
    if inDND dnd then
      (let scheduleAt = getNextOpenWindow A in
       case storeFingerprint A w e of
         (Some err, w1) \<Rightarrow> (Inl err, w1)
       | (None, w1) \<Rightarrow>
           returned (finalize A w1 LATER 35
             (''User in DND window ('' @ window dnd @ ''). Deferred to next open slot.'')
             (Some scheduleAt) stages4 ruleMatches auditId e))
    else
   (let baseScore = computeScore (Date_now A) e;
        stages5 = stages4 @ [(''scorer'', SText (''base_score='' @ show_int baseScore))];
        fatigue = getFatiguePenalty A w (user_id e) (source e);
        stages6 = stages5 @ [(''fatigue'', SText (''count='' @ show_int (count fatigue)
                      @ ''/hr, penalty='' @ show_int (penalty fatigue)
                      @ '', level='' @ level_name (level fatigue)))];
        ai = getAiScore A e;
        aiScore = (case ai of Inl aiErr \<Rightarrow> 0 | Inr a \<Rightarrow> a);
        stages7 = stages6 @ [(''ai'', SText (case ai of
                      Inl aiErr \<Rightarrow> ''SKIPPED ('' @ fault_message aiErr @ '')''
                    | Inr a \<Rightarrow> ''adjustment='' @ (if a \<ge> 0 then ''+'' else '''')
                               @ show_int a))];
        finalScore = max 0 (min 100 (baseScore - penalty fatigue + aiScore));
        conflict = resolveConflict e finalScore fatigue;
        stages8 = stages7 @ [(''conflict'', SText (if resolved conflict
                      then conflict_reason conflict else ''No conflict detected''))] in
    case conflict of
      Resolved cdecision creason \<Rightarrow>
        (let schedAt = (if cdecision = LATER then Some (getShortDefer A) else None) in
         case storeFingerprint A w e of
           (Some err, w1) \<Rightarrow> (Inl err, w1)
         | (None, w1) \<Rightarrow>
             returned (finalize A (incrementCounter A w1 e) cdecision finalScore creason
               schedAt stages8 ruleMatches auditId e))
    | Unresolved \<Rightarrow>
        (let (dec, scheduleAt, rsn) =
               (if finalScore \<ge> 60 then
                  (NOW, None,
                   ''Score '' @ show_int finalScore @ '' '' @ geq_sign @ '' 60 '' @ emdash
                   @ '' dispatching immediately.'')
                else if finalScore \<ge> 30 then
                  (let s = getOptimalWindow A (event_type e) in
                   (LATER, Some s,
                    ''Score '' @ show_int finalScore @ '' in [30,60) '' @ emdash
                    @ '' scheduled for '' @ Date_toISOString A s @ ''.''))
                else
                  (NEVER, None,
                   ''Score '' @ show_int finalScore @ '' < 30 '' @ emdash
                   @ '' low-value notification suppressed.''));
             stages9 = stages8 @ [(''decision'', SText (''score='' @ show_int finalScore
                         @ '' '' @ rarrow @ '' '' @ decision_name dec))] in
         case storeFingerprint A w e of
           (Some err, w1) \<Rightarrow> (Inl err, w1)
         | (None, w1) \<Rightarrow>
             returned (finalize A (incrementCounter A w1 e) dec finalScore rsn
               scheduleAt stages9 ruleMatches auditId e))))))))"

text \<open>
  \<open>evaluate\<close>: the \<open>try\<close> block and its \<open>catch\<close>, the failsafe for a CRITICAL event.
\<close>

definition evaluate :: "ambient \<Rightarrow> world \<Rightarrow> event \<Rightarrow> (fault + result) \<times> world" where
  "evaluate A w e =
     (case pipeline A w e of
        (Inr res, w') \<Rightarrow> (Inr res, w')
      | (Inl err, w') \<Rightarrow>
          if priority_hint e = ''CRITICAL'' then
            returned (finalize A w' NOW 90
              (''FAILSAFE: pipeline error caught '' @ emdash
               @ '' CRITICAL sent NOW to prevent loss.'')
              None [(''failsafe'', SFlag True)] [] (''aud_'' @ take 8 (uuidv4_audit A)) e)
          else (Inl err, w'))"

section \<open>Notions used to state the properties\<close>

text \<open>
  The clamped score that stage 8 computes (\<open>finalScore\<close>), and the condition under which
  an event passes stages 1 to 4 and reaches the scoring stages: not expired, not reported
  as a duplicate, not CRITICAL, not suppressed by a rule, outside the DND window.
\<close>

definition stage8_score :: "ambient \<Rightarrow> world \<Rightarrow> event \<Rightarrow> int" where
  "stage8_score A w e =
     max 0 (min 100 (computeScore (Date_now A) e
                     - penalty (getFatiguePenalty A w (user_id e) (source e))
                     + (case getAiScore A e of Inl aiErr \<Rightarrow> 0 | Inr a \<Rightarrow> a)))"

definition passes_guards :: "ambient \<Rightarrow> world \<Rightarrow> event \<Rightarrow> bool" where
  "passes_guards A w e \<longleftrightarrow>
     \<not> is_expired A e
     \<and> (case checkDuplicate A w e of Inl err \<Rightarrow> False | Inr dup \<Rightarrow> \<not> isDuplicate dup)
     \<and> priority_hint e \<noteq> ''CRITICAL''
     \<and> find (\<lambda>r. action r = ''SUPPRESS'') (matchRules e (getRules A)) = None"

text \<open>The dedup guard reports a duplicate (and does not throw).\<close>

definition reports_duplicate :: "ambient \<Rightarrow> world \<Rightarrow> event \<Rightarrow> bool" where
  "reports_duplicate A w e \<longleftrightarrow>
     (case checkDuplicate A w e of Inl err \<Rightarrow> False | Inr dup \<Rightarrow> isDuplicate dup)"

text \<open>A store command that leaves every key but \<open>k\<close>, and everything outside the store, alone.\<close>

definition writes_at :: "string \<Rightarrow> (world \<Rightarrow> fault + world) \<Rightarrow> bool" where
  "writes_at k f \<longleftrightarrow>
     (\<forall>w w'. f w = Inr w' \<longrightarrow>
        redis_status w' = redis_status w \<and> auditStore w' = auditStore w
        \<and> deferredQueue w' = deferredQueue w \<and> invoked w' = invoked w
        \<and> (\<forall>k'. k' \<noteq> k \<longrightarrow> db w' k' = db w k'))"


section \<open>Concrete inputs\<close>

text \<open>
  An afternoon with an empty store, no rules and the mock AI scorer. The digests and the
  date rendering of the runtime are replaced by stand-ins here; the theorems below hold
  for any.
\<close>

definition demo_ambient :: ambient where
  "demo_ambient =
     \<lparr>Date_now = 1700000000000, Date_getHours = 14,
      Date_today_0800 = 1699977600000, Date_tomorrow_0800 = 1700064000000,
      Date_toISOString = show_int,
      Math_random_window = 1 / 2, Math_random_jitter = 1 / 2,
      uuidv4_audit = ''a1b2c3d4-0000-4000-8000-000000000000'',
      uuidv4_event = ''e5f6a7b8-0000-4000-8000-000000000000'',
      sha256_hex = (\<lambda>s. s), md5_hex = (\<lambda>s. ''00000000000000000000000000000000''),
      cachedRules = [], AI_SERVICE_URL = None, fetch_outcome = AiAbort,
      AI_SERVICE_TIMEOUT_MS = None, MAX_NOTIFS_PER_HOUR = None\<rparr>"

definition night_ambient :: ambient where
  "night_ambient = demo_ambient\<lparr>Date_getHours := 2\<rparr>"

definition empty_world :: world where
  "empty_world = \<lparr>redis_status = Ready, db = Map.empty, auditStore = Map.empty,
                   deferredQueue = [], invoked = []\<rparr>"

definition demo_event :: event where
  "demo_event =
     \<lparr>user_id = ''u1'', event_type = ''digest'', message = Text ''News'',
      source = Some ''digest-svc'', priority_hint = ''LOW'', channel = ''in-app'',
      timestamp = None, dedupe_key = None, expires_at = None\<rparr>"


definition high_event :: event where
  "high_event = demo_event\<lparr>priority_hint := ''HIGH''\<rparr>"

definition maxed5 :: fatigue where
  "maxed5 = \<lparr>count = 5, penalty = 30, level = MAXED\<rparr>"

definition maxed6 :: fatigue where
  "maxed6 = \<lparr>count = 6, penalty = 30, level = MAXED\<rparr>"

text \<open>A store in which user u1 has five notifications counted within the last hour.\<close>

definition busy_world :: world where
  "busy_world = empty_world\<lparr>db := [''freq:u1:total'' \<mapsto>
     \<lparr>rval = RZSet [(''1699999000000:reminder'', 1699999000000),
                     (''1699999100000:reminder'', 1699999100000),
                     (''1699999200000:digest'', 1699999200000),
                     (''1699999300000:reminder'', 1699999300000),
                     (''1699999400000:digest'', 1699999400000)],
      deadline = Some 1700013800000\<rparr>]\<rparr>"

text \<open>A CRITICAL event whose expiry, 1 January 2020, lies in the past.\<close>

definition crit_expired_event :: event where
  "crit_expired_event =
     demo_event\<lparr>priority_hint := ''CRITICAL'', event_type := ''security_alert'',
                expires_at := Some (Time 1577836800000)\<rparr>"

text \<open>A CRITICAL event whose idempotency key is already in the store.\<close>

definition crit_dup_event :: event where
  "crit_dup_event =
     demo_event\<lparr>priority_hint := ''CRITICAL'', event_type := ''security_alert'',
                dedupe_key := Some ''k1''\<rparr>"

definition dup_world :: world where
  "dup_world = empty_world\<lparr>db := [''dedup:key:k1'' \<mapsto>
     \<lparr>rval = RString ''1'', deadline = Some 1700000300000\<rparr>]\<rparr>"

text \<open>Events whose message is a number: \<open>buildFingerprint\<close> throws on them.\<close>

definition crit_nontext_event :: event where
  "crit_nontext_event =
     demo_event\<lparr>priority_hint := ''CRITICAL'', event_type := ''security_alert'',
                message := NonText\<rparr>"

definition low_nontext_event :: event where
  "low_nontext_event = demo_event\<lparr>message := NonText\<rparr>"

text \<open>A reminder of medium priority: base score 48, mock AI adjustment 8.\<close>

definition reminder_event :: event where
  "reminder_event =
     demo_event\<lparr>priority_hint := ''MEDIUM'', event_type := ''reminder'', channel := ''push''\<rparr>"

text \<open>A security alert of high priority (base score 68) and a promotion (base score 45).\<close>

definition alert_event :: event where
  "alert_event =
     demo_event\<lparr>priority_hint := ''HIGH'', event_type := ''security_alert'', channel := ''push''\<rparr>"

definition promo_event :: event where
  "promo_event =
     demo_event\<lparr>priority_hint := ''HIGH'', event_type := ''promotion'', channel := ''sms''\<rparr>"

section \<open>Auxiliary facts\<close>

subsection \<open>Store commands, effects and the paths through the pipeline\<close>

lemma writes_at_set: "k \<in> K \<Longrightarrow> \<exists>k' \<in> K. writes_at k' (redis_set t k v ttl)"
  by (rule bexI[where x = k]) (auto simp: writes_at_def redis_set_def split: redis_status.splits)

lemma writes_at_zadd: "k \<in> K \<Longrightarrow> \<exists>k' \<in> K. writes_at k' (redis_zadd t k sc m)"
  by (rule bexI[where x = k])
     (auto simp: writes_at_def redis_zadd_def split: redis_status.splits option.splits rval.splits)

lemma writes_at_expire: "k \<in> K \<Longrightarrow> \<exists>k' \<in> K. writes_at k' (redis_expire t k secs)"
  by (rule bexI[where x = k])
     (auto simp: writes_at_def redis_expire_def split: redis_status.splits option.splits)

lemma writes_at_zrem: "k \<in> K \<Longrightarrow> \<exists>k' \<in> K. writes_at k' (redis_zremrangebyscore t k hi)"
  by (rule bexI[where x = k])
     (auto simp: writes_at_def redis_zremrangebyscore_def Let_def
           split: redis_status.splits option.splits rval.splits if_splits)

lemma run_ops_invariant:
  assumes "\<And>f v v'. f \<in> set fs \<Longrightarrow> f v = Inr v' \<Longrightarrow> P v \<Longrightarrow> P v'"
    and "P w"
  shows "P (snd (run_ops fs w))"
  using assms
proof (induction fs arbitrary: w)
  case Nil
  then show ?case by simp
next
  case (Cons f fs)
  show ?case
  proof (cases "f w")
    case (Inl err)
    then have "snd (run_ops (f # fs) w) = w" by simp
    with Cons.prems(2) show ?thesis by simp
  next
    case (Inr w1)
    have "f \<in> set (f # fs)" by simp
    from Cons.prems(1)[OF this Inr Cons.prems(2)] have p1: "P w1" .
    have step: "\<And>g v v'. g \<in> set fs \<Longrightarrow> g v = Inr v' \<Longrightarrow> P v \<Longrightarrow> P v'"
      using Cons.prems(1) by (meson list.set_intros(2))
    from Cons.IH[OF step p1] have "P (snd (run_ops fs w1))" .
    moreover have "snd (run_ops (f # fs) w) = snd (run_ops fs w1)" using Inr by simp
    ultimately show ?thesis by simp
  qed
qed



lemma run_ops_frame:
  assumes all: "\<forall>f \<in> set fs. \<exists>k \<in> K. writes_at k f"
  shows "redis_status (snd (run_ops fs w)) = redis_status w
       \<and> auditStore (snd (run_ops fs w)) = auditStore w
       \<and> deferredQueue (snd (run_ops fs w)) = deferredQueue w
       \<and> invoked (snd (run_ops fs w)) = invoked w
       \<and> (\<forall>k'. k' \<notin> K \<longrightarrow> db (snd (run_ops fs w)) k' = db w k')"
proof -
  define P where "P v \<longleftrightarrow> redis_status v = redis_status w
       \<and> auditStore v = auditStore w
       \<and> deferredQueue v = deferredQueue w
       \<and> invoked v = invoked w
       \<and> (\<forall>k'. k' \<notin> K \<longrightarrow> db v k' = db w k')" for v :: world
  have pres: "P v'" if f: "f \<in> set fs" and r: "f v = Inr v'" and p: "P v" for f v v'
  proof -
    from all f obtain k where k: "k \<in> K" "writes_at k f" by blast
    from k(2) r have s: "redis_status v' = redis_status v \<and> auditStore v' = auditStore v
        \<and> deferredQueue v' = deferredQueue v \<and> invoked v' = invoked v
        \<and> (\<forall>k'. k' \<noteq> k \<longrightarrow> db v' k' = db v k')"
      unfolding writes_at_def by blast
    have "\<forall>k'. k' \<notin> K \<longrightarrow> db v' k' = db w k'"
    proof (intro allI impI)
      fix k' assume n: "k' \<notin> K"
      with k(1) have "k' \<noteq> k" by blast
      with s have "db v' k' = db v k'" by blast
      also from p n have "db v k' = db w k'" unfolding P_def by blast
      finally show "db v' k' = db w k'" .
    qed
    with s p show ?thesis unfolding P_def by simp
  qed
  have init: "P w" unfolding P_def by simp
  have "P (snd (run_ops fs w))"
  proof (rule run_ops_invariant)
    show "P w" by (rule init)
    show "\<And>f v v'. f \<in> set fs \<Longrightarrow> f v = Inr v' \<Longrightarrow> P v \<Longrightarrow> P v'"
      by (rule pres)
  qed
  then show ?thesis unfolding P_def .
qed

lemma storeFingerprint_fault:
  "message e = NonText \<Longrightarrow> fst (storeFingerprint A w e) \<noteq> None"
  by (simp add: storeFingerprint_def buildFingerprint_def Let_def)

lemma storeFingerprint_ok:
  "message e \<noteq> NonText \<Longrightarrow> fst (storeFingerprint A w e) = None"
  by (simp add: storeFingerprint_def buildFingerprint_def Let_def)

lemma storeFingerprint_frame:
  "redis_status (snd (storeFingerprint A w e)) = redis_status w
   \<and> auditStore (snd (storeFingerprint A w e)) = auditStore w
   \<and> deferredQueue (snd (storeFingerprint A w e)) = deferredQueue w
   \<and> invoked (snd (storeFingerprint A w e)) = invoked w @ [StoreFingerprint]
   \<and> db (snd (storeFingerprint A w e)) (''freq:'' @ r) = db w (''freq:'' @ r)"
proof (cases "buildFingerprint (sha256_hex A) e")
  case (Inl err)
  then show ?thesis by (simp add: storeFingerprint_def Let_def)
next
  case (Inr fp)
  define K where "K = {k. \<forall>r. k \<noteq> ''freq:'' @ r}"
  define w0 where "w0 = w\<lparr>invoked := invoked w @ [StoreFingerprint]\<rparr>"
  define ttl where "ttl = (if isPromo (event_type e) then TTL_PROMO else TTL_TRANSACTIONAL)"
  define simKey where "simKey = ''sim:'' @ user_id e @ '':'' @ event_type e"
  define ops where "ops =
     [redis_set (Date_now A) (''dedup:fp:'' @ fp) ''1'' ttl]
     @ (if truthy (dedupe_key e)
        then [redis_set (Date_now A) (''dedup:key:'' @ or_empty (dedupe_key e)) ''1'' ttl]
        else [])
     @ [redis_zadd (Date_now A) simKey (Date_now A)
          (show_int (computeSimHash (md5_hex A) (message_text (message e)))),
        redis_expire (Date_now A) simKey NEAR_DUP_WINDOW,
        redis_zremrangebyscore (Date_now A) simKey (Date_now A - NEAR_DUP_WINDOW * 1000)]"
  have m1: "''dedup:fp:'' @ fp \<in> K" by (simp add: K_def)
  have m2: "''dedup:key:'' @ or_empty (dedupe_key e) \<in> K" by (simp add: K_def)
  have m3: "simKey \<in> K" by (simp add: K_def simKey_def)
  have all: "\<forall>f \<in> set ops. \<exists>k \<in> K. writes_at k f"
    unfolding ops_def
    using writes_at_set[OF m1] writes_at_set[OF m2] writes_at_zadd[OF m3]
      writes_at_expire[OF m3] writes_at_zrem[OF m3]
    by simp
  have eq: "snd (storeFingerprint A w e) = snd (run_ops ops w0)"
    unfolding storeFingerprint_def Let_def Inr ops_def w0_def ttl_def simKey_def
    by (simp del: run_ops.simps)
  have "''freq:'' @ r \<notin> K" by (simp add: K_def)
  with run_ops_frame[OF all, of w0] show ?thesis
    unfolding eq by (simp add: w0_def)
qed




lemma incrementCounter_frame:
  "redis_status (incrementCounter A w e) = redis_status w
   \<and> auditStore (incrementCounter A w e) = auditStore w
   \<and> deferredQueue (incrementCounter A w e) = deferredQueue w
   \<and> invoked (incrementCounter A w e) = invoked w @ [IncrementCounter]"
proof -
  define w0 where "w0 = w\<lparr>invoked := invoked w @ [IncrementCounter]\<rparr>"
  define t where "t = Date_now A"
  define member where "member = show_int t @ '':'' @ event_type e"
  define totalKey where "totalKey = ''freq:'' @ user_id e @ '':total''"
  define srcKey where "srcKey = ''freq:'' @ user_id e @ '':'' @ interpolate (source e)"
  define promoKey where "promoKey = ''freq:'' @ user_id e @ '':promo''"
  define K where "K = (UNIV :: string set)"
  define ops where "ops =
           [redis_zadd t totalKey t member,
             redis_expire t totalKey W4H,
             redis_zremrangebyscore t totalKey (t - W1H * 1000),
             redis_zadd t srcKey t member,
             redis_expire t srcKey W4H,
             redis_zremrangebyscore t srcKey (t - W1H * 1000)]
            @ (if event_type e \<in> set [''promotion'', ''low_value_promo'']
               then [redis_zadd t promoKey t member,
                     redis_expire t promoKey W4H,
                     redis_zremrangebyscore t promoKey (t - W4H * 1000)]
               else [])"
  have u: "\<And>k. k \<in> K" by (simp add: K_def)
  have all: "\<forall>f \<in> set ops. \<exists>k \<in> K. writes_at k f"
    unfolding ops_def
    using writes_at_zadd[OF u] writes_at_expire[OF u] writes_at_zrem[OF u]
    by auto
  have eq: "incrementCounter A w e = snd (run_ops ops w0)"
    unfolding incrementCounter_def Let_def ops_def w0_def t_def member_def totalKey_def
      srcKey_def promoKey_def
    by (simp del: run_ops.simps)
  from run_ops_frame[OF all, of w0] show ?thesis
    unfolding eq by (simp add: w0_def)
qed

lemma fst_finalize:
  "fst (finalize A w dec sc rsn sch st rm aid e) =
     \<lparr>decision = dec, score = sc, reason = rsn, schedule_at = sch, audit_id = aid\<rparr>"
  by (simp add: finalize_def Let_def)

lemma snd_finalize:
  "redis_status (snd (finalize A w dec sc rsn sch st rm aid e)) = redis_status w
   \<and> db (snd (finalize A w dec sc rsn sch st rm aid e)) = db w
   \<and> invoked (snd (finalize A w dec sc rsn sch st rm aid e)) = invoked w"
  by (simp add: finalize_def Let_def writeAudit_def scheduleDeferred_def split: option.splits)

lemma audit_finalize:
  "map_option a_stages (auditStore (snd (finalize A w dec sc rsn sch st rm aid e)) aid) = Some st
   \<and> map_option a_decision (auditStore (snd (finalize A w dec sc rsn sch st rm aid e)) aid) = Some dec"
  by (simp add: finalize_def Let_def writeAudit_def scheduleDeferred_def split: option.splits)

lemma checkDuplicate_passed_text:
  assumes "checkDuplicate A w e = Inr dup" and "\<not> isDuplicate dup"
  shows "message e \<noteq> NonText"
  using assms
  by (auto simp: checkDuplicate_def buildFingerprint_def Let_def split: if_splits sum.splits)



lemma path_expired:
  assumes "is_expired A e"
  shows "pipeline A w e = returned (finalize A w NEVER 0
       ''Event expired (expires_at in the past). Delivery has no value.''
       None [(''expiry'', SText ''EXPIRED'')] [] (''aud_'' @ take 8 (uuidv4_audit A)) e)"
  using assms unfolding pipeline_def by (simp add: Let_def)

lemma path_dedup_fault:
  assumes "\<not> is_expired A e" "checkDuplicate A w e = Inl err"
  shows "pipeline A w e = (Inl err, w)"
  using assms unfolding pipeline_def by (simp add: Let_def)

lemma path_duplicate:
  assumes "\<not> is_expired A e" "checkDuplicate A w e = Inr dup" "isDuplicate dup"
  shows "pipeline A w e = returned (finalize A w NEVER 0
        (''Duplicate suppressed ('' @ interp_null (dup_type dup) @ ''): ''
         @ interp_null (detail dup))
        None
        [(''expiry'', SText ''VALID''),
         (''dedup'', SText (interp_null (dup_type dup) @ '': '' @ interp_null (detail dup)))]
        [] (''aud_'' @ take 8 (uuidv4_audit A)) e)"
  using assms unfolding pipeline_def by (simp add: Let_def)

lemma path_critical:
  assumes "\<not> is_expired A e" "checkDuplicate A w e = Inr dup" "\<not> isDuplicate dup"
    "priority_hint e = ''CRITICAL''" "fst (storeFingerprint A w e) = None"
  shows "pipeline A w e = returned (finalize A
        (incrementCounter A (snd (storeFingerprint A w e)) e) NOW 97
        (''CRITICAL priority '' @ emdash @ '' bypasses all guards and sends immediately.'')
        None
        [(''expiry'', SText ''VALID''), (''dedup'', SText ''PASS''),
         (''rules'', SText ''CRITICAL_OVERRIDE'')]
        [''critical-always-now''] (''aud_'' @ take 8 (uuidv4_audit A)) e)"
  using assms unfolding pipeline_def
  by (cases "storeFingerprint A w e") (simp add: Let_def)

lemma path_suppressed:
  assumes "\<not> is_expired A e" "checkDuplicate A w e = Inr dup" "\<not> isDuplicate dup"
    "priority_hint e \<noteq> ''CRITICAL''"
    "find (\<lambda>r. action r = ''SUPPRESS'') (matchRules e (getRules A)) = Some sr"
  shows "pipeline A w e = returned (finalize A w NEVER 0
        (''Suppressed by operator rule: '' @ rule_id sr) None
        [(''expiry'', SText ''VALID''), (''dedup'', SText ''PASS''),
         (''rules'', SText (''SUPPRESSED by rule: '' @ rule_id sr))]
        (map rule_id (matchRules e (getRules A))) (''aud_'' @ take 8 (uuidv4_audit A)) e)"
  using assms unfolding pipeline_def by (simp add: Let_def)




lemma path_dnd:
  assumes "passes_guards A w e" "inDND (checkDND A)" "fst (storeFingerprint A w e) = None"
  shows "\<exists>st. pipeline A w e = returned (finalize A (snd (storeFingerprint A w e)) LATER 35
        (''User in DND window ('' @ window (checkDND A) @ ''). Deferred to next open slot.'')
        (Some (getNextOpenWindow A)) st
        (map rule_id (matchRules e (getRules A))) (''aud_'' @ take 8 (uuidv4_audit A)) e)"
proof -
  from assms(1) obtain dup where d: "checkDuplicate A w e = Inr dup" "\<not> isDuplicate dup"
    by (auto simp: passes_guards_def split: sum.splits)
  from assms(1) have g: "\<not> is_expired A e" "priority_hint e \<noteq> ''CRITICAL''"
    "find (\<lambda>r. action r = ''SUPPRESS'') (matchRules e (getRules A)) = None"
    by (simp_all add: passes_guards_def)
  show ?thesis
    using d g assms(2,3) unfolding pipeline_def
    by (cases "storeFingerprint A w e") (auto simp: Let_def)
qed

lemma path_conflict:
  assumes "passes_guards A w e" "\<not> inDND (checkDND A)" "fst (storeFingerprint A w e) = None"
    "resolveConflict e (stage8_score A w e) (getFatiguePenalty A w (user_id e) (source e))
       = Resolved d r"
  shows "\<exists>st. pipeline A w e = returned (finalize A
        (incrementCounter A (snd (storeFingerprint A w e)) e) d (stage8_score A w e) r
        (if d = LATER then Some (getShortDefer A) else None) st
        (map rule_id (matchRules e (getRules A))) (''aud_'' @ take 8 (uuidv4_audit A)) e)"
proof -
  from assms(1) obtain dup where d: "checkDuplicate A w e = Inr dup" "\<not> isDuplicate dup"
    by (auto simp: passes_guards_def split: sum.splits)
  from assms(1) have g: "\<not> is_expired A e" "priority_hint e \<noteq> ''CRITICAL''"
    "find (\<lambda>r. action r = ''SUPPRESS'') (matchRules e (getRules A)) = None"
    by (simp_all add: passes_guards_def)
  show ?thesis
    using d g assms(2,3) assms(4)[unfolded stage8_score_def] unfolding pipeline_def stage8_score_def
    by (cases "storeFingerprint A w e") (auto simp: Let_def)
qed

lemma path_boundary:
  assumes "passes_guards A w e" "\<not> inDND (checkDND A)" "fst (storeFingerprint A w e) = None"
    "resolveConflict e (stage8_score A w e) (getFatiguePenalty A w (user_id e) (source e))
       = Unresolved"
  shows "\<exists>st rsn. pipeline A w e = returned (finalize A
        (incrementCounter A (snd (storeFingerprint A w e)) e)
        (if stage8_score A w e \<ge> 60 then NOW
         else if stage8_score A w e \<ge> 30 then LATER else NEVER)
        (stage8_score A w e) rsn
        (if stage8_score A w e \<ge> 60 then None
         else if stage8_score A w e \<ge> 30 then Some (getOptimalWindow A (event_type e))
         else None) st
        (map rule_id (matchRules e (getRules A))) (''aud_'' @ take 8 (uuidv4_audit A)) e)"
proof -
  from assms(1) obtain dup where d: "checkDuplicate A w e = Inr dup" "\<not> isDuplicate dup"
    by (auto simp: passes_guards_def split: sum.splits)
  from assms(1) have g: "\<not> is_expired A e" "priority_hint e \<noteq> ''CRITICAL''"
    "find (\<lambda>r. action r = ''SUPPRESS'') (matchRules e (getRules A)) = None"
    by (simp_all add: passes_guards_def)
  show ?thesis
    using d g assms(2,3) assms(4)[unfolded stage8_score_def] unfolding pipeline_def stage8_score_def
    by (cases "storeFingerprint A w e") (auto simp: Let_def)
qed




lemma evaluate_returned:
  "fst (pipeline A w e) = Inr r \<Longrightarrow> evaluate A w e = pipeline A w e"
  by (cases "pipeline A w e") (simp add: evaluate_def)

lemma evaluate_failsafe:
  "fst (pipeline A w e) = Inl err \<Longrightarrow>
     evaluate A w e =
       (if priority_hint e = ''CRITICAL'' then
          returned (finalize A (snd (pipeline A w e)) NOW 90
              (''FAILSAFE: pipeline error caught '' @ emdash
               @ '' CRITICAL sent NOW to prevent loss.'')
              None [(''failsafe'', SFlag True)] [] (''aud_'' @ take 8 (uuidv4_audit A)) e)
        else (Inl err, snd (pipeline A w e)))"
  by (cases "pipeline A w e") (simp add: evaluate_def)

lemma fst_returned: "fst (returned rw) = Inr (fst rw)"
  by (simp add: returned_def)

lemma snd_returned: "snd (returned rw) = snd rw"
  by (simp add: returned_def)

lemma pipeline_schedule_iff:
  assumes "fst (pipeline A w e) = Inr r"
  shows "(schedule_at r \<noteq> None) = (decision r = LATER)"
proof (cases "is_expired A e")
  case True
  from path_expired[OF True, of w] assms show ?thesis
    by (auto simp: fst_returned fst_finalize)
next
  case ne: False
  show ?thesis
  proof (cases "checkDuplicate A w e")
    case (Inl err)
    from path_dedup_fault[OF ne Inl] assms show ?thesis by simp
  next
    case (Inr dup)
    show ?thesis
    proof (cases "isDuplicate dup")
      case True
      from path_duplicate[OF ne Inr True] assms show ?thesis
        by (auto simp: fst_returned fst_finalize)
    next
      case nd: False
      have sf: "fst (storeFingerprint A w e) = None"
        by (rule storeFingerprint_ok[OF checkDuplicate_passed_text[OF Inr nd]])
      show ?thesis
      proof (cases "priority_hint e = ''CRITICAL''")
        case True
        from path_critical[OF ne Inr nd True sf] assms show ?thesis
          by (auto simp: fst_returned fst_finalize)
      next
        case nc: False
        show ?thesis
        proof (cases "find (\<lambda>r. action r = ''SUPPRESS'') (matchRules e (getRules A))")
          case (Some sr)
          from path_suppressed[OF ne Inr nd nc Some] assms show ?thesis
            by (auto simp: fst_returned fst_finalize)
        next
          case None
          have pg: "passes_guards A w e"
            using ne Inr nd nc None by (simp add: passes_guards_def)
          show ?thesis
          proof (cases "inDND (checkDND A)")
            case True
            from path_dnd[OF pg True sf] assms show ?thesis
              by (auto simp: fst_returned fst_finalize)
          next
            case nn: False
            show ?thesis
            proof (cases "resolveConflict e (stage8_score A w e)
                            (getFatiguePenalty A w (user_id e) (source e))")
              case (Resolved d rs)
              from path_conflict[OF pg nn sf Resolved] assms show ?thesis
                by (auto simp: fst_returned fst_finalize split: if_splits)
            next
              case Unresolved
              from path_boundary[OF pg nn sf Unresolved] assms show ?thesis
                by (auto simp: fst_returned fst_finalize split: if_splits)
            qed
          qed
        qed
      qed
    qed
  qed
qed


lemma passes_guards_store_ok:
  assumes "passes_guards A w e"
  shows "fst (storeFingerprint A w' e) = None"
proof -
  from assms obtain dup where "checkDuplicate A w e = Inr dup" "\<not> isDuplicate dup"
    by (auto simp: passes_guards_def split: sum.splits)
  then show ?thesis
    by (intro storeFingerprint_ok checkDuplicate_passed_text)
qed

subsection \<open>Evaluation on the concrete inputs\<close>

lemma demo_now: "Date_now demo_ambient = 1700000000000" "Date_now night_ambient = 1700000000000"
  "uuidv4_audit demo_ambient = ''a1b2c3d4-0000-4000-8000-000000000000''"
  "uuidv4_audit night_ambient = ''a1b2c3d4-0000-4000-8000-000000000000''"
  by (simp_all add: demo_ambient_def night_ambient_def)

lemma demo_checkDuplicate:
  "checkDuplicate demo_ambient empty_world demo_event
     = Inr \<lparr>isDuplicate = False, dup_type = None, detail = None\<rparr>"
  by (simp add: checkDuplicate_def truthy_def demo_event_def buildFingerprint_def Let_def
        redisGet_def redis_get_def empty_world_def live_value_def checkNearDuplicate_def
        message_text_def)

lemma night_checkDuplicate:
  "checkDuplicate night_ambient empty_world demo_event
     = Inr \<lparr>isDuplicate = False, dup_type = None, detail = None\<rparr>"
  by (simp add: checkDuplicate_def truthy_def demo_event_def buildFingerprint_def Let_def
        redisGet_def redis_get_def empty_world_def live_value_def checkNearDuplicate_def
        message_text_def)

lemma demo_passes_guards: "passes_guards demo_ambient empty_world demo_event"
  by (simp add: passes_guards_def demo_checkDuplicate)
     (simp add: is_expired_def demo_event_def matchRules_def getRules_def demo_ambient_def)

lemma night_passes_guards: "passes_guards night_ambient empty_world demo_event"
  by (simp add: passes_guards_def night_checkDuplicate)
     (simp add: is_expired_def demo_event_def matchRules_def getRules_def demo_ambient_def
        night_ambient_def)

lemma dup_world_reports: "checkDuplicate demo_ambient dup_world crit_dup_event
     = Inr \<lparr>isDuplicate = True, dup_type = Some ''EXACT_KEY'',
            detail = Some ''dedupe_key=k1''\<rparr>"
  by (simp add: checkDuplicate_def truthy_def crit_dup_event_def demo_event_def or_empty_def
        redisGet_def redis_get_def dup_world_def empty_world_def live_value_def
        demo_ambient_def)

lemma nontext_fault:
  "message e = NonText \<Longrightarrow> dedupe_key e = None \<Longrightarrow>
   checkDuplicate A w e
     = Inl (TypeError ''(event.message || \"\").toLowerCase is not a function'')"
  by (simp add: checkDuplicate_def truthy_def buildFingerprint_def)

subsection \<open>Scoring stages and schedules\<close>


lemma redis_get_fresh:
  assumes "redis_status v = Ready"
    and "db v k = Some \<lparr>rval = RString s, deadline = Some (t + ttl * 1000)\<rparr>"
    and "0 < ttl"
  shows "redis_get t v k = Inr (Some s)"
  using assms by (simp add: redis_get_def live_value_def)

lemma storeFingerprint_writes:
  assumes rdy: "redis_status w = Ready"
    and fp: "buildFingerprint (sha256_hex A) e = Inr fp"
  shows "redis_get (Date_now A) (snd (storeFingerprint A w e)) (''dedup:fp:'' @ fp)
           = Inr (Some ''1'')
       \<and> (truthy (dedupe_key e) \<longrightarrow>
            redis_get (Date_now A) (snd (storeFingerprint A w e))
              (''dedup:key:'' @ or_empty (dedupe_key e)) = Inr (Some ''1''))"
proof -
  define t where "t = Date_now A"
  define w0 where "w0 = w\<lparr>invoked := invoked w @ [StoreFingerprint]\<rparr>"
  define ttl where "ttl = (if isPromo (event_type e) then TTL_PROMO else TTL_TRANSACTIONAL)"
  define simKey where "simKey = ''sim:'' @ user_id e @ '':'' @ event_type e"
  define fpKey where "fpKey = ''dedup:fp:'' @ fp"
  define ddKey where "ddKey = ''dedup:key:'' @ or_empty (dedupe_key e)"
  define simOps where "simOps =
       [redis_zadd t simKey t
          (show_int (computeSimHash (md5_hex A) (message_text (message e)))),
        redis_expire t simKey NEAR_DUP_WINDOW,
        redis_zremrangebyscore t simKey (t - NEAR_DUP_WINDOW * 1000)]"
  define keyOps where "keyOps =
       (if truthy (dedupe_key e) then [redis_set t ddKey ''1'' ttl] else [])"
  define w1 where "w1 = w0\<lparr>db := (db w0)(fpKey \<mapsto>
       \<lparr>rval = RString ''1'', deadline = Some (t + ttl * 1000)\<rparr>)\<rparr>"
  define w2 where "w2 = w1\<lparr>db := (db w1)(ddKey \<mapsto>
       \<lparr>rval = RString ''1'', deadline = Some (t + ttl * 1000)\<rparr>)\<rparr>"
  have ttl: "0 < ttl" by (simp add: ttl_def TTL_PROMO_def TTL_TRANSACTIONAL_def)
  have eq: "snd (storeFingerprint A w e)
            = snd (run_ops ([redis_set t fpKey ''1'' ttl] @ keyOps @ simOps) w0)"
    unfolding storeFingerprint_def Let_def fp keyOps_def simOps_def w0_def ttl_def simKey_def
      t_def fpKey_def ddKey_def
    by (simp del: run_ops.simps)
  have s1: "redis_set t fpKey ''1'' ttl w0 = Inr w1"
    using rdy by (simp add: redis_set_def w0_def w1_def)
  have r1: "redis_status w1 = Ready" using rdy by (simp add: w1_def w0_def)
  have eq1: "snd (storeFingerprint A w e) = snd (run_ops (keyOps @ simOps) w1)"
    unfolding eq using s1 by simp
  have neq: "simKey \<noteq> fpKey" "simKey \<noteq> ddKey" "ddKey \<noteq> fpKey"
    by (simp_all add: simKey_def fpKey_def ddKey_def)
  have first: "redis_get t (snd (storeFingerprint A w e)) fpKey = Inr (Some ''1'')"
  proof -
    define K where "K = {k. k \<noteq> fpKey}"
    have m: "ddKey \<in> K" "simKey \<in> K" using neq by (simp_all add: K_def)
    have all: "\<forall>f \<in> set (keyOps @ simOps). \<exists>k \<in> K. writes_at k f"
      unfolding keyOps_def simOps_def
      using writes_at_set[OF m(1)] writes_at_zadd[OF m(2)]
        writes_at_expire[OF m(2)] writes_at_zrem[OF m(2)]
      by simp
    have "fpKey \<notin> K" by (simp add: K_def)
    with run_ops_frame[OF all, of w1]
    have "redis_status (snd (run_ops (keyOps @ simOps) w1)) = Ready"
      and "db (snd (run_ops (keyOps @ simOps) w1)) fpKey
           = Some \<lparr>rval = RString ''1'', deadline = Some (t + ttl * 1000)\<rparr>"
      using r1 by (simp_all add: w1_def)
    then show ?thesis unfolding eq1 using ttl by (rule redis_get_fresh)
  qed
  have second: "redis_get t (snd (storeFingerprint A w e)) ddKey = Inr (Some ''1'')"
    if tr: "truthy (dedupe_key e)"
  proof -
    define K where "K = {k. k \<noteq> ddKey}"
    have m: "simKey \<in> K" using neq by (simp add: K_def)
    have s2: "redis_set t ddKey ''1'' ttl w1 = Inr w2"
      using r1 by (simp add: redis_set_def w2_def)
    have eq2: "snd (storeFingerprint A w e) = snd (run_ops simOps w2)"
      unfolding eq1 keyOps_def using tr s2 by simp
    have all: "\<forall>f \<in> set simOps. \<exists>k \<in> K. writes_at k f"
      unfolding simOps_def
      using writes_at_zadd[OF m] writes_at_expire[OF m] writes_at_zrem[OF m]
      by simp
    have "ddKey \<notin> K" by (simp add: K_def)
    with run_ops_frame[OF all, of w2]
    have "redis_status (snd (run_ops simOps w2)) = Ready"
      and "db (snd (run_ops simOps w2)) ddKey
           = Some \<lparr>rval = RString ''1'', deadline = Some (t + ttl * 1000)\<rparr>"
      using r1 by (simp_all add: w2_def)
    then show ?thesis unfolding eq2 using ttl by (rule redis_get_fresh)
  qed
  from first second show ?thesis
    by (simp add: t_def fpKey_def ddKey_def)
qed

lemma redis_get_cong:
  "db v = db v' \<Longrightarrow> redis_status v = redis_status v' \<Longrightarrow> redis_get t v k = redis_get t v' k"
  by (cases "redis_status v'") (simp_all add: redis_get_def live_value_def)

lemma scoring_stages_return:
  assumes "passes_guards A w e" and "\<not> inDND (checkDND A)"
  shows "\<exists>r. fst (pipeline A w e) = Inr r"
proof (cases "resolveConflict e (stage8_score A w e)
                (getFatiguePenalty A w (user_id e) (source e))")
  case (Resolved d rs)
  from path_conflict[OF assms passes_guards_store_ok[OF assms(1)] Resolved]
  show ?thesis by (auto simp: fst_returned)
next
  case Unresolved
  from path_boundary[OF assms passes_guards_store_ok[OF assms(1)] Unresolved]
  show ?thesis by (auto simp: fst_returned)
qed

lemma boundary_result:
  assumes pg: "passes_guards A w e" and nd: "\<not> inDND (checkDND A)"
    and un: "resolveConflict e (stage8_score A w e)
               (getFatiguePenalty A w (user_id e) (source e)) = Unresolved"
  shows "(\<exists>r. fst (evaluate A w e) = Inr r \<and> score r = stage8_score A w e
            \<and> decision r = (if stage8_score A w e \<ge> 60 then NOW
                             else if stage8_score A w e \<ge> 30 then LATER else NEVER)
            \<and> schedule_at r = (if stage8_score A w e \<ge> 60 then None
                             else if stage8_score A w e \<ge> 30
                             then Some (getOptimalWindow A (event_type e)) else None))
       \<and> invoked (snd (evaluate A w e)) = invoked w @ [StoreFingerprint, IncrementCounter]"
proof -
  from path_boundary[OF pg nd passes_guards_store_ok[OF pg] un]
  obtain st rsn where p: "pipeline A w e = returned (finalize A
        (incrementCounter A (snd (storeFingerprint A w e)) e)
        (if stage8_score A w e \<ge> 60 then NOW
         else if stage8_score A w e \<ge> 30 then LATER else NEVER)
        (stage8_score A w e) rsn
        (if stage8_score A w e \<ge> 60 then None
         else if stage8_score A w e \<ge> 30 then Some (getOptimalWindow A (event_type e))
         else None) st
        (map rule_id (matchRules e (getRules A))) (''aud_'' @ take 8 (uuidv4_audit A)) e)"
    by blast
  have f: "\<exists>r. fst (pipeline A w e) = Inr r" unfolding p by (simp add: fst_returned)
  then obtain r0 where r0: "fst (pipeline A w e) = Inr r0" by blast
  have ev: "evaluate A w e = pipeline A w e" by (rule evaluate_returned[OF r0])
  have i: "invoked (snd (pipeline A w e)) = invoked w @ [StoreFingerprint, IncrementCounter]"
    unfolding p
    by (simp add: snd_returned snd_finalize incrementCounter_frame storeFingerprint_frame)
  show ?thesis unfolding ev using i unfolding p
    by (simp add: fst_returned fst_finalize)
qed



lemma demo_fatigue:
  "getFatiguePenalty demo_ambient empty_world u s = \<lparr>count = 0, penalty = 0, level = LOW\<rparr>"
  by (simp add: getFatiguePenalty_def redis_zcount_def empty_world_def live_value_def
        CAPS_total_def parsed_or_def demo_ambient_def Let_def)

lemma resolve_low: "level f = LOW \<Longrightarrow> resolveConflict e s f = Unresolved"
  by (simp add: resolveConflict_def)


lemma demo_not_dnd: "\<not> inDND (checkDND demo_ambient)"
  by (simp add: checkDND_def demo_ambient_def)


lemma demo_ai:
  "getAiScore demo_ambient (demo_event\<lparr>priority_hint := p, event_type := t, channel := c\<rparr>)
     = Inr (max (- 10) (min 15 (lookup_or
                   [(''security_alert'', 12), (''direct_message'', 10), (''payment_alert'', 11),
                    (''reminder'', 8), (''system_update'', 2), (''promotion'', - 5),
                    (''low_value_promo'', - 8)] t 0)))"
  by (simp add: getAiScore_def getMockAiScore_def truthy_def demo_ambient_def Let_def)

lemma demo_scores:
  "stage8_score demo_ambient empty_world demo_event = 16"
  "stage8_score demo_ambient empty_world reminder_event = 56"
  "stage8_score demo_ambient empty_world alert_event = 80"
  "stage8_score demo_ambient empty_world promo_event = 40"
proof -
  have d: "demo_event = demo_event\<lparr>priority_hint := ''LOW'', event_type := ''digest'',
                                   channel := ''in-app''\<rparr>"
    by (simp add: demo_event_def)
  show "stage8_score demo_ambient empty_world demo_event = 16"
    apply (subst d)
    unfolding stage8_score_def demo_fatigue demo_ai
    by (simp add: computeScore_def lookup_or_def PRIORITY_SCORES_def EVENT_TYPE_SCORES_def
          CHANNEL_SCORES_def freshnessScore_def demo_event_def)
  show "stage8_score demo_ambient empty_world reminder_event = 56"
    unfolding stage8_score_def demo_fatigue reminder_event_def demo_ai
    by (simp add: computeScore_def lookup_or_def PRIORITY_SCORES_def EVENT_TYPE_SCORES_def
          CHANNEL_SCORES_def freshnessScore_def demo_event_def)
  show "stage8_score demo_ambient empty_world alert_event = 80"
    unfolding stage8_score_def demo_fatigue alert_event_def demo_ai
    by (simp add: computeScore_def lookup_or_def PRIORITY_SCORES_def EVENT_TYPE_SCORES_def
          CHANNEL_SCORES_def freshnessScore_def demo_event_def)
  show "stage8_score demo_ambient empty_world promo_event = 40"
    unfolding stage8_score_def demo_fatigue promo_event_def demo_ai
    by (simp add: computeScore_def lookup_or_def PRIORITY_SCORES_def EVENT_TYPE_SCORES_def
          CHANNEL_SCORES_def freshnessScore_def demo_event_def)
qed



lemma conflict_result:
  assumes pg: "passes_guards A w e" and nd: "\<not> inDND (checkDND A)"
    and rs: "resolveConflict e (stage8_score A w e)
               (getFatiguePenalty A w (user_id e) (source e)) = Resolved d rsn"
  shows "fst (evaluate A w e) =
           Inr \<lparr>decision = d, score = stage8_score A w e, reason = rsn,
                schedule_at = (if d = LATER then Some (getShortDefer A) else None),
                audit_id = ''aud_'' @ take 8 (uuidv4_audit A)\<rparr>
       \<and> invoked (snd (evaluate A w e)) = invoked w @ [StoreFingerprint, IncrementCounter]"
proof -
  from path_conflict[OF pg nd passes_guards_store_ok[OF pg] rs]
  obtain st where p: "pipeline A w e = returned (finalize A
        (incrementCounter A (snd (storeFingerprint A w e)) e) d (stage8_score A w e) rsn
        (if d = LATER then Some (getShortDefer A) else None) st
        (map rule_id (matchRules e (getRules A))) (''aud_'' @ take 8 (uuidv4_audit A)) e)"
    by blast
  have "\<exists>r. fst (pipeline A w e) = Inr r" unfolding p by (simp add: fst_returned)
  then obtain r0 where r0: "fst (pipeline A w e) = Inr r0" by blast
  have ev: "evaluate A w e = pipeline A w e" by (rule evaluate_returned[OF r0])
  have i: "invoked (snd (pipeline A w e)) = invoked w @ [StoreFingerprint, IncrementCounter]"
    unfolding p
    by (simp add: snd_returned snd_finalize incrementCounter_frame storeFingerprint_frame)
  show ?thesis unfolding ev using i unfolding p
    by (simp add: fst_returned fst_finalize)
qed

lemma busy_checkDuplicate:
  "checkDuplicate demo_ambient busy_world reminder_event
     = Inr \<lparr>isDuplicate = False, dup_type = None, detail = None\<rparr>"
  by (simp add: checkDuplicate_def truthy_def reminder_event_def demo_event_def
        buildFingerprint_def Let_def redisGet_def redis_get_def busy_world_def empty_world_def
        live_value_def checkNearDuplicate_def message_text_def)

lemma busy_passes_guards: "passes_guards demo_ambient busy_world reminder_event"
  by (simp add: passes_guards_def busy_checkDuplicate)
     (simp add: is_expired_def reminder_event_def demo_event_def matchRules_def getRules_def
        demo_ambient_def)

lemma busy_fatigue:
  "getFatiguePenalty demo_ambient busy_world ''u1'' s = \<lparr>count = 5, penalty = 30, level = MAXED\<rparr>"
  by (simp add: getFatiguePenalty_def redis_zcount_def busy_world_def empty_world_def
        live_value_def CAPS_total_def parsed_or_def demo_ambient_def Let_def W1H_def)

lemma busy_score: "stage8_score demo_ambient busy_world reminder_event = 26"
proof -
  have u: "user_id reminder_event = ''u1''" by (simp add: reminder_event_def demo_event_def)
  show ?thesis
    unfolding stage8_score_def u busy_fatigue
    unfolding reminder_event_def demo_ai
    by (simp add: computeScore_def lookup_or_def PRIORITY_SCORES_def EVENT_TYPE_SCORES_def
          CHANNEL_SCORES_def freshnessScore_def demo_event_def)
qed

lemma busy_conflict:
  "resolveConflict reminder_event 26 \<lparr>count = 5, penalty = 30, level = MAXED\<rparr>
     = Resolved NEVER
         (''CONFLICT RESOLVED: MEDIUM priority suppressed '' @ emdash
           @ '' user at fatigue cap (5/5 per hr). Sending now would worsen alert fatigue.'')"
  by (simp add: resolveConflict_def reminder_event_def demo_event_def show_int_def
        show_nat.simps)

subsection \<open>Message normalisation\<close>
















section \<open>Writes on a NEVER outcome\<close>

text \<open>
  Claim C1 does not hold of the code. A low-priority digest that scores 16 is decided
  NEVER at the decision boundary, and a reminder of medium priority for a user at the
  fatigue cap is decided NEVER by the conflict resolver; in both evaluations
  \<open>storeFingerprint\<close> and \<open>incrementCounter\<close> are called.
\<close>

theorem never_outcomes_still_write:
  "(\<exists>r. fst (evaluate demo_ambient empty_world demo_event) = Inr r
       \<and> decision r = NEVER \<and> score r = 16)
   \<and> invoked (snd (evaluate demo_ambient empty_world demo_event))
       = [StoreFingerprint, IncrementCounter]
   \<and> (\<exists>r. fst (evaluate demo_ambient busy_world reminder_event) = Inr r
       \<and> decision r = NEVER \<and> score r = 26)
   \<and> invoked (snd (evaluate demo_ambient busy_world reminder_event))
       = [StoreFingerprint, IncrementCounter]"
proof -
  have un: "resolveConflict demo_event (stage8_score demo_ambient empty_world demo_event)
              (getFatiguePenalty demo_ambient empty_world (user_id demo_event)
                 (source demo_event)) = Unresolved"
    by (simp add: demo_fatigue resolve_low)
  have u: "user_id reminder_event = ''u1''" by (simp add: reminder_event_def demo_event_def)
  have rs: "resolveConflict reminder_event (stage8_score demo_ambient busy_world reminder_event)
              (getFatiguePenalty demo_ambient busy_world (user_id reminder_event)
                 (source reminder_event))
            = Resolved NEVER
               (''CONFLICT RESOLVED: MEDIUM priority suppressed '' @ emdash
                 @ '' user at fatigue cap (5/5 per hr). Sending now would worsen alert fatigue.'')"
    unfolding busy_score u busy_fatigue by (rule busy_conflict)
  have iw: "invoked empty_world = []" "invoked busy_world = []"
    by (simp_all add: empty_world_def busy_world_def)
  show ?thesis
    using boundary_result [OF demo_passes_guards demo_not_dnd un]
          conflict_result [OF busy_passes_guards demo_not_dnd rs]
    by (auto simp: demo_scores busy_score iw)
qed

section \<open>CRITICAL events and the dedup guard\<close>

text \<open>
  Claim C2, as amended. A CRITICAL event that is not expired is decided NOW unless the
  dedup guard reports it as a duplicate; a CRITICAL event that the guard reports as a
  duplicate is decided NEVER with score 0. The guard of stage 2 runs before the CRITICAL
  check of stage 3, so CRITICAL does not bypass it. (When the guard throws, the failsafe
  answers NOW.)
\<close>

theorem critical_now_unless_duplicate:
  assumes "priority_hint e = ''CRITICAL''" and "\<not> is_expired A e"
  shows "\<exists>r. fst (evaluate A w e) = Inr r
       \<and> (reports_duplicate A w e \<longrightarrow> decision r = NEVER \<and> score r = 0)
       \<and> (\<not> reports_duplicate A w e \<longrightarrow> decision r = NOW)"
proof (cases "checkDuplicate A w e")
  case (Inl err)
  from path_dedup_fault[OF assms(2) Inl] have p: "fst (pipeline A w e) = Inl err" by simp
  from Inl have nr: "\<not> reports_duplicate A w e" by (simp add: reports_duplicate_def)
  from evaluate_failsafe[OF p] assms(1) nr show ?thesis
    by (simp add: fst_returned fst_finalize)
next
  case (Inr dup)
  show ?thesis
  proof (cases "isDuplicate dup")
    case True
    with Inr have rd: "reports_duplicate A w e" by (simp add: reports_duplicate_def)
    have "\<exists>r. fst (pipeline A w e) = Inr r \<and> decision r = NEVER \<and> score r = 0"
      by (simp add: path_duplicate[OF assms(2) Inr True] fst_returned fst_finalize)
    then obtain r where r: "fst (pipeline A w e) = Inr r" "decision r = NEVER" "score r = 0"
      by blast
    from evaluate_returned[OF r(1)] r rd show ?thesis by simp
  next
    case False
    with Inr have nr: "\<not> reports_duplicate A w e" by (simp add: reports_duplicate_def)
    have sf: "fst (storeFingerprint A w e) = None"
      by (rule storeFingerprint_ok[OF checkDuplicate_passed_text[OF Inr False]])
    have "\<exists>r. fst (pipeline A w e) = Inr r \<and> decision r = NOW"
      by (simp add: path_critical[OF assms(2) Inr False assms(1) sf] fst_returned fst_finalize)
    then obtain r where r: "fst (pipeline A w e) = Inr r" "decision r = NOW" by blast
    from evaluate_returned[OF r(1)] r nr show ?thesis by simp
  qed
qed

theorem critical_now_unless_duplicate_witness:
  "priority_hint crit_dup_event = ''CRITICAL''
   \<and> \<not> is_expired demo_ambient crit_dup_event
   \<and> reports_duplicate demo_ambient dup_world crit_dup_event
   \<and> (\<exists>r. fst (evaluate demo_ambient dup_world crit_dup_event) = Inr r
          \<and> decision r = NEVER \<and> score r = 0)
   \<and> \<not> reports_duplicate demo_ambient empty_world crit_nontext_event
   \<and> (\<exists>r. fst (evaluate demo_ambient empty_world crit_nontext_event) = Inr r
          \<and> decision r = NOW)"
proof -
  have c: "priority_hint crit_dup_event = ''CRITICAL''"
    and c': "priority_hint crit_nontext_event = ''CRITICAL''"
    by (simp_all add: crit_dup_event_def crit_nontext_event_def)
  have x: "\<not> is_expired demo_ambient crit_dup_event"
    and x': "\<not> is_expired demo_ambient crit_nontext_event"
    by (simp_all add: is_expired_def crit_dup_event_def crit_nontext_event_def demo_event_def)
  have d: "reports_duplicate demo_ambient dup_world crit_dup_event"
    by (simp add: reports_duplicate_def dup_world_reports)
  have n: "\<not> reports_duplicate demo_ambient empty_world crit_nontext_event"
    by (simp add: reports_duplicate_def nontext_fault crit_nontext_event_def demo_event_def)
  show ?thesis
    using critical_now_unless_duplicate [OF c x, of dup_world]
          critical_now_unless_duplicate [OF c' x', of empty_world] c x d n
    by simp
qed

text \<open>
  The claim as stated fails: a CRITICAL event without expiry whose \<open>dedupe_key\<close> is in
  the store is suppressed.
\<close>

theorem critical_duplicate_is_suppressed:
  "priority_hint crit_dup_event = ''CRITICAL''
   \<and> expires_at crit_dup_event = None
   \<and> dedupe_key crit_dup_event = Some ''k1''
   \<and> redis_get (Date_now demo_ambient) dup_world ''dedup:key:k1'' = Inr (Some ''1'')
   \<and> fst (evaluate demo_ambient dup_world crit_dup_event) =
       Inr \<lparr>decision = NEVER, score = 0,
            reason = ''Duplicate suppressed (EXACT_KEY): dedupe_key=k1'',
            schedule_at = None, audit_id = ''aud_a1b2c3d4''\<rparr>"
proof -
  have x: "\<not> is_expired demo_ambient crit_dup_event"
    by (simp add: is_expired_def crit_dup_event_def demo_event_def)
  have p: "fst (pipeline demo_ambient dup_world crit_dup_event) =
       Inr \<lparr>decision = NEVER, score = 0,
            reason = ''Duplicate suppressed (EXACT_KEY): dedupe_key=k1'',
            schedule_at = None, audit_id = ''aud_a1b2c3d4''\<rparr>"
    by (simp add: path_duplicate [OF x dup_world_reports] fst_returned fst_finalize
          interp_null_def demo_now)
  have g: "redis_get (Date_now demo_ambient) dup_world ''dedup:key:k1'' = Inr (Some ''1'')"
    by (simp add: redis_get_def dup_world_def empty_world_def live_value_def demo_now)
  show ?thesis
    using evaluate_returned [OF p] p g
    by (simp add: crit_dup_event_def demo_event_def)
qed

section \<open>The failsafe envelope\<close>

text \<open>
  Claim C3, as amended. When a fault escapes from the stages of the pipeline (a fault of
  the AI scorer is caught inside its own stage and never escapes), then for a CRITICAL
  event \<open>evaluate\<close> returns NOW with score 90, no schedule and the reason
  \<open>FAILSAFE: pipeline error caught - CRITICAL sent NOW to prevent loss.\<close> (the dash being an em dash), and the
  audit record it writes has the stages \<open>{failsafe: true}\<close>; for any other event the same
  fault is thrown to the caller.
\<close>

theorem failsafe_envelope:
  assumes "fst (pipeline A w e) = Inl err"
  shows "(priority_hint e = ''CRITICAL'' \<longrightarrow>
            fst (evaluate A w e) =
              Inr \<lparr>decision = NOW, score = 90,
                   reason = ''FAILSAFE: pipeline error caught '' @ emdash
                     @ '' CRITICAL sent NOW to prevent loss.'',
                   schedule_at = None, audit_id = ''aud_'' @ take 8 (uuidv4_audit A)\<rparr>
            \<and> map_option a_stages
                 (auditStore (snd (evaluate A w e)) (''aud_'' @ take 8 (uuidv4_audit A)))
               = Some [(''failsafe'', SFlag True)])
       \<and> (priority_hint e \<noteq> ''CRITICAL'' \<longrightarrow> fst (evaluate A w e) = Inl err)"
  using evaluate_failsafe[OF assms]
  by (simp add: fst_returned snd_returned fst_finalize audit_finalize)

theorem failsafe_envelope_witness:
  "fst (pipeline demo_ambient empty_world crit_nontext_event)
     = Inl (TypeError ''(event.message || \"\").toLowerCase is not a function'')
   \<and> priority_hint crit_nontext_event = ''CRITICAL''
   \<and> fst (evaluate demo_ambient empty_world crit_nontext_event) =
       Inr \<lparr>decision = NOW, score = 90,
            reason = ''FAILSAFE: pipeline error caught '' @ emdash
              @ '' CRITICAL sent NOW to prevent loss.'',
            schedule_at = None, audit_id = ''aud_a1b2c3d4''\<rparr>
   \<and> map_option a_stages
        (auditStore (snd (evaluate demo_ambient empty_world crit_nontext_event)) ''aud_a1b2c3d4'')
      = Some [(''failsafe'', SFlag True)]
   \<and> fst (pipeline demo_ambient empty_world low_nontext_event)
     = Inl (TypeError ''(event.message || \"\").toLowerCase is not a function'')
   \<and> priority_hint low_nontext_event \<noteq> ''CRITICAL''
   \<and> fst (evaluate demo_ambient empty_world low_nontext_event)
     = Inl (TypeError ''(event.message || \"\").toLowerCase is not a function'')"
proof -
  have x: "\<not> is_expired demo_ambient crit_nontext_event"
    and x': "\<not> is_expired demo_ambient low_nontext_event"
    by (simp_all add: is_expired_def crit_nontext_event_def low_nontext_event_def
          demo_event_def)
  have f: "checkDuplicate demo_ambient empty_world crit_nontext_event
     = Inl (TypeError ''(event.message || \"\").toLowerCase is not a function'')"
    and f': "checkDuplicate demo_ambient empty_world low_nontext_event
     = Inl (TypeError ''(event.message || \"\").toLowerCase is not a function'')"
    by (simp_all add: nontext_fault crit_nontext_event_def low_nontext_event_def
          demo_event_def)
  have p: "fst (pipeline demo_ambient empty_world crit_nontext_event)
     = Inl (TypeError ''(event.message || \"\").toLowerCase is not a function'')"
    by (simp add: path_dedup_fault [OF x f])
  have p': "fst (pipeline demo_ambient empty_world low_nontext_event)
     = Inl (TypeError ''(event.message || \"\").toLowerCase is not a function'')"
    by (simp add: path_dedup_fault [OF x' f'])
  have c: "priority_hint crit_nontext_event = ''CRITICAL''"
    and c': "priority_hint low_nontext_event \<noteq> ''CRITICAL''"
    by (simp_all add: crit_nontext_event_def low_nontext_event_def demo_event_def)
  show ?thesis
    using failsafe_envelope [OF p] failsafe_envelope [OF p'] p p' c c'
    by (simp add: demo_now)
qed

text \<open>
  The claim as stated fails on the reason: for a CRITICAL event whose message is a
  number, the fingerprint of stage 2 throws, and the failsafe answers with a reason that
  is not the one the claim quotes.
\<close>

theorem failsafe_reason_differs:
  "priority_hint crit_nontext_event = ''CRITICAL''
   \<and> fst (pipeline demo_ambient empty_world crit_nontext_event)
     = Inl (TypeError ''(event.message || \"\").toLowerCase is not a function'')
   \<and> fst (evaluate demo_ambient empty_world crit_nontext_event) =
       Inr \<lparr>decision = NOW, score = 90,
            reason = ''FAILSAFE: pipeline error caught '' @ emdash
              @ '' CRITICAL sent NOW to prevent loss.'',
            schedule_at = None, audit_id = ''aud_a1b2c3d4''\<rparr>
   \<and> ''FAILSAFE: pipeline error caught '' @ emdash @ '' CRITICAL sent NOW to prevent loss.''
     \<noteq> ''FAILSAFE: pipeline error '' @ emdash @ '' CRITICAL sent NOW''"
proof -
  have x: "\<not> is_expired demo_ambient crit_nontext_event"
    by (simp add: is_expired_def crit_nontext_event_def demo_event_def)
  have f: "checkDuplicate demo_ambient empty_world crit_nontext_event
     = Inl (TypeError ''(event.message || \"\").toLowerCase is not a function'')"
    by (simp add: nontext_fault crit_nontext_event_def demo_event_def)
  have p: "fst (pipeline demo_ambient empty_world crit_nontext_event)
     = Inl (TypeError ''(event.message || \"\").toLowerCase is not a function'')"
    by (simp add: path_dedup_fault [OF x f])
  have c: "priority_hint crit_nontext_event = ''CRITICAL''"
    by (simp add: crit_nontext_event_def demo_event_def)
  show ?thesis
    using evaluate_failsafe [OF p] p c
    by (simp add: fst_returned fst_finalize demo_now)
qed

section \<open>The conflict resolver\<close>

text \<open>
  Claim C4, as amended. Two calls of \<open>resolveConflict\<close> that agree on the priority hint,
  the fatigue level, the source and the score agree on \<open>resolved\<close> and on the decision,
  whatever else the events and the fatigue records hold; when they also agree on the
  fatigue count, they return the same result, reason included.
\<close>

theorem resolveConflict_depends_on:
  assumes "priority_hint e1 = priority_hint e2"
    and "level f1 = level f2"
    and "source e1 = source e2"
  shows "resolved (resolveConflict e1 s f1) = resolved (resolveConflict e2 s f2)
    \<and> conflict_decision (resolveConflict e1 s f1) = conflict_decision (resolveConflict e2 s f2)
    \<and> (count f1 = count f2 \<longrightarrow> resolveConflict e1 s f1 = resolveConflict e2 s f2)"
  using assms
  by (simp add: resolveConflict_def resolved_def conflict_decision_def)

theorem resolveConflict_depends_on_witness:
  "priority_hint high_event = priority_hint (high_event\<lparr>user_id := ''u2''\<rparr>)
   \<and> level maxed5 = level maxed6
   \<and> source high_event = source (high_event\<lparr>user_id := ''u2''\<rparr>)
   \<and> resolved (resolveConflict high_event 50 maxed5)
   \<and> conflict_decision (resolveConflict (high_event\<lparr>user_id := ''u2''\<rparr>) 50 maxed6) = Some LATER
   \<and> resolveConflict high_event 50 maxed5
       = resolveConflict (high_event\<lparr>user_id := ''u2''\<rparr>) 50 maxed5"
proof -
  have a: "priority_hint high_event = priority_hint (high_event\<lparr>user_id := ''u2''\<rparr>)"
    and c: "source high_event = source (high_event\<lparr>user_id := ''u2''\<rparr>)"
    by simp_all
  have b: "level maxed5 = level maxed6" and b': "level maxed5 = level maxed5"
    by (simp_all add: maxed5_def maxed6_def)
  have r: "resolved (resolveConflict high_event 50 maxed5)"
    by (simp add: resolveConflict_def resolved_def high_event_def demo_event_def maxed5_def)
  have d: "conflict_decision (resolveConflict high_event 50 maxed5) = Some LATER"
    by (simp add: resolveConflict_def conflict_decision_def high_event_def demo_event_def
          maxed5_def)
  show ?thesis
    using resolveConflict_depends_on [OF a b c, of 50]
          resolveConflict_depends_on [OF a b' c, of 50] a b c r d
    by simp
qed

text \<open>
  The claim as stated fails: with the same priority hint, level, source and score, the
  counts 5 and 6 give two different reasons.
\<close>

theorem resolveConflict_reason_reads_count:
  "priority_hint high_event = priority_hint high_event
   \<and> level maxed5 = level maxed6
   \<and> source high_event = source high_event
   \<and> conflict_reason (resolveConflict high_event 50 maxed5)
       \<noteq> conflict_reason (resolveConflict high_event 50 maxed6)"
  by (simp add: resolveConflict_def conflict_reason_def high_event_def demo_event_def
        maxed5_def maxed6_def show_int_def show_nat.simps)

section \<open>The schedule of a decision\<close>

text \<open>
  Claim C5. Whenever \<open>evaluate\<close> returns a decision: if the pipeline itself returned
  (the failsafe was not invoked), \<open>schedule_at\<close> is non-null exactly when the decision is
  LATER; if the pipeline threw and the failsafe answered, the decision is NOW and
  \<open>schedule_at\<close> is null.
\<close>

theorem schedule_at_iff_later:
  assumes "fst (evaluate A w e) = Inr r"
  shows "(\<forall>res. fst (pipeline A w e) = Inr res \<longrightarrow>
            (schedule_at r \<noteq> None) = (decision r = LATER))
       \<and> (\<forall>err. fst (pipeline A w e) = Inl err \<longrightarrow>
            decision r = NOW \<and> schedule_at r = None)"
proof (rule conjI; intro allI impI)
  fix res assume p: "fst (pipeline A w e) = Inr res"
  from evaluate_returned[OF p] assms p have "res = r" by simp
  with pipeline_schedule_iff[OF p] show "(schedule_at r \<noteq> None) = (decision r = LATER)"
    by simp
next
  fix err assume p: "fst (pipeline A w e) = Inl err"
  from evaluate_failsafe[OF p] assms
  have "priority_hint e = ''CRITICAL''" by (auto split: if_splits)
  with evaluate_failsafe[OF p] assms
  show "decision r = NOW \<and> schedule_at r = None"
    by (auto simp: fst_returned fst_finalize)
qed

theorem schedule_at_iff_later_witness:
  "(\<exists>r. fst (evaluate night_ambient empty_world demo_event) = Inr r
       \<and> fst (pipeline night_ambient empty_world demo_event) = Inr r
       \<and> schedule_at r \<noteq> None \<and> decision r = LATER)
   \<and> (\<exists>r err. fst (evaluate demo_ambient empty_world crit_nontext_event) = Inr r
       \<and> fst (pipeline demo_ambient empty_world crit_nontext_event) = Inl err
       \<and> decision r = NOW \<and> schedule_at r = None)"
proof -
  have dnd: "inDND (checkDND night_ambient)"
    by (simp add: checkDND_def night_ambient_def demo_ambient_def)
  from path_dnd [OF night_passes_guards dnd passes_guards_store_ok [OF night_passes_guards]]
  obtain rL where pL: "fst (pipeline night_ambient empty_world demo_event) = Inr rL"
    and dL: "decision rL = LATER"
    by (auto simp: fst_returned fst_finalize)
  have eL: "fst (evaluate night_ambient empty_world demo_event) = Inr rL"
    using evaluate_returned [OF pL] pL by simp
  have x: "\<not> is_expired demo_ambient crit_nontext_event"
    by (simp add: is_expired_def crit_nontext_event_def demo_event_def)
  have f: "checkDuplicate demo_ambient empty_world crit_nontext_event
     = Inl (TypeError ''(event.message || \"\").toLowerCase is not a function'')"
    by (simp add: nontext_fault crit_nontext_event_def demo_event_def)
  have pF: "fst (pipeline demo_ambient empty_world crit_nontext_event)
     = Inl (TypeError ''(event.message || \"\").toLowerCase is not a function'')"
    by (simp add: path_dedup_fault [OF x f])
  have c: "priority_hint crit_nontext_event = ''CRITICAL''"
    by (simp add: crit_nontext_event_def demo_event_def)
  obtain rF where eF: "fst (evaluate demo_ambient empty_world crit_nontext_event) = Inr rF"
    using evaluate_failsafe [OF pF] c by (simp add: fst_returned)
  from schedule_at_iff_later [OF eL] pL dL have sL: "schedule_at rL \<noteq> None" by simp
  from schedule_at_iff_later [OF eF] pF have sF: "decision rF = NOW \<and> schedule_at rF = None"
    by simp
  from eL pL sL dL eF pF sF show ?thesis by blast
qed

section \<open>Expiry\<close>

text \<open>
  Claim C6. An event whose \<open>expires_at\<close> is present and strictly earlier than the
  current time is decided NEVER with score 0, for every priority hint (CRITICAL
  included), every store and every rule set; no fingerprint is stored and no counter is
  incremented on the way.
\<close>

theorem expiry_precedes_everything:
  assumes "expires_at e = Some (Time t)" and "t < Date_now A"
  shows "fst (evaluate A w e) =
     Inr \<lparr>decision = NEVER, score = 0,
          reason = ''Event expired (expires_at in the past). Delivery has no value.'',
          schedule_at = None, audit_id = ''aud_'' @ take 8 (uuidv4_audit A)\<rparr>
     \<and> invoked (snd (evaluate A w e)) = invoked w"
proof -
  from assms have x: "is_expired A e" by (simp add: is_expired_def)
  have p: "fst (pipeline A w e) = Inr \<lparr>decision = NEVER, score = 0,
          reason = ''Event expired (expires_at in the past). Delivery has no value.'',
          schedule_at = None, audit_id = ''aud_'' @ take 8 (uuidv4_audit A)\<rparr>"
    by (simp add: path_expired[OF x] fst_returned fst_finalize)
  have i: "invoked (snd (pipeline A w e)) = invoked w"
    by (simp add: path_expired[OF x] snd_returned snd_finalize)
  from evaluate_returned[OF p] p i show ?thesis by simp
qed

theorem expiry_precedes_everything_witness:
  "expires_at crit_expired_event = Some (Time 1577836800000)
   \<and> 1577836800000 < Date_now demo_ambient
   \<and> priority_hint crit_expired_event = ''CRITICAL''
   \<and> fst (evaluate demo_ambient empty_world crit_expired_event) =
       Inr \<lparr>decision = NEVER, score = 0,
            reason = ''Event expired (expires_at in the past). Delivery has no value.'',
            schedule_at = None, audit_id = ''aud_a1b2c3d4''\<rparr>"
proof -
  have h1: "expires_at crit_expired_event = Some (Time 1577836800000)"
    by (simp add: crit_expired_event_def)
  have h2: "1577836800000 < Date_now demo_ambient"
    by (simp add: demo_now)
  have p: "priority_hint crit_expired_event = ''CRITICAL''"
    by (simp add: crit_expired_event_def)
  show ?thesis
    using expiry_precedes_everything [OF h1 h2, of empty_world] h1 h2 p
    by (simp add: demo_now)
qed

section \<open>The decision boundary\<close>



section \<open>The fatigue penalty curve\<close>

text \<open>
  Claim C8. With the default total cap of 5, when the count \<open>n\<close> of the user's total
  counter is read, \<open>getFatiguePenalty\<close> returns that count, the penalty 30 when
  \<open>n / 5 \<ge> 1.0\<close>, else 20 when \<open>n / 5 \<ge> 0.8\<close>, else 10 when \<open>n / 5 \<ge> 0.5\<close>, else 5 when
  \<open>n \<ge> 2\<close>, else 0, the branches tried in this order, and the level LOW for the penalty
  0, MEDIUM for a penalty up to 10, HIGH for a penalty up to 20, MAXED above. In whole
  counts: 30 and MAXED from five on, 20 and HIGH at four, 10 and MEDIUM at three, 5 and
  MEDIUM at two, 0 and LOW below.
\<close>

theorem getFatiguePenalty_curve:
  assumes "CAPS_total A = 5"
    and "redis_zcount (Date_now A) w (''freq:'' @ u @ '':total'')
           (Date_now A - 3600 * 1000) (Date_now A) = Inr n"
  shows "count (getFatiguePenalty A w u src) = n
    \<and> penalty (getFatiguePenalty A w u src) =
        (if real_of_int n / 5 \<ge> 1.0 then 30
         else if real_of_int n / 5 \<ge> 0.8 then 20
         else if real_of_int n / 5 \<ge> 0.5 then 10
         else if n \<ge> 2 then 5 else 0)
    \<and> level (getFatiguePenalty A w u src) =
        (if penalty (getFatiguePenalty A w u src) = 0 then LOW
         else if penalty (getFatiguePenalty A w u src) \<le> 10 then MEDIUM
         else if penalty (getFatiguePenalty A w u src) \<le> 20 then HIGH
         else MAXED)
    \<and> (penalty (getFatiguePenalty A w u src), level (getFatiguePenalty A w u src)) =
        (if n \<ge> 5 then (30, MAXED) else if n = 4 then (20, HIGH)
         else if n = 3 then (10, MEDIUM) else if n = 2 then (5, MEDIUM) else (0, LOW))"
  using assms unfolding getFatiguePenalty_def W1H_def
  by (auto simp: Let_def)

theorem getFatiguePenalty_curve_witness:
  "CAPS_total demo_ambient = 5
   \<and> redis_zcount (Date_now demo_ambient) busy_world (''freq:'' @ ''u1'' @ '':total'')
        (Date_now demo_ambient - 3600 * 1000) (Date_now demo_ambient) = Inr 5
   \<and> count (getFatiguePenalty demo_ambient busy_world ''u1'' None) = 5
   \<and> penalty (getFatiguePenalty demo_ambient busy_world ''u1'' None) = 30
   \<and> level (getFatiguePenalty demo_ambient busy_world ''u1'' None) = MAXED"
proof -
  have cap: "CAPS_total demo_ambient = 5"
    by (simp add: CAPS_total_def parsed_or_def demo_ambient_def)
  have cnt: "redis_zcount (Date_now demo_ambient) busy_world (''freq:'' @ ''u1'' @ '':total'')
        (Date_now demo_ambient - 3600 * 1000) (Date_now demo_ambient) = Inr 5"
    by (simp add: redis_zcount_def busy_world_def empty_world_def live_value_def
          demo_ambient_def)
  show ?thesis
    using getFatiguePenalty_curve [OF cap cnt, of None] cap cnt by simp
qed

section \<open>The fingerprint\<close>



section \<open>Deferral in the DND window\<close>

text \<open>
  Claim C10. For an event that passes the guards (not expired, not a duplicate, not
  CRITICAL, not suppressed by a rule) while the hour is in the window from 23:00 to
  08:00, \<open>evaluate\<close> returns LATER, calls \<open>storeFingerprint\<close> and never
  \<open>incrementCounter\<close>, and leaves the counter keys \<open>freq:<user>:total\<close>,
  \<open>freq:<user>:<source>\<close> and \<open>freq:<user>:promo\<close> as they were; with the store
  connected, the key \<open>dedup:fp:<fingerprint>\<close>, and \<open>dedup:key:<dedupe_key>\<close> when the
  event has a key, hold \<open>1\<close> afterwards.
\<close>

theorem dnd_deferral_frame:
  assumes pg: "passes_guards A w e"
    and hr: "Date_getHours A \<ge> 23 \<or> Date_getHours A < 8"
  shows "(\<exists>r. fst (evaluate A w e) = Inr r \<and> decision r = LATER \<and> score r = 35
            \<and> schedule_at r = Some (getNextOpenWindow A))
    \<and> invoked (snd (evaluate A w e)) = invoked w @ [StoreFingerprint]
    \<and> db (snd (evaluate A w e)) (''freq:'' @ user_id e @ '':total'')
        = db w (''freq:'' @ user_id e @ '':total'')
    \<and> db (snd (evaluate A w e)) (''freq:'' @ user_id e @ '':'' @ interpolate (source e))
        = db w (''freq:'' @ user_id e @ '':'' @ interpolate (source e))
    \<and> db (snd (evaluate A w e)) (''freq:'' @ user_id e @ '':promo'')
        = db w (''freq:'' @ user_id e @ '':promo'')
    \<and> (redis_status w = Ready \<longrightarrow>
         (\<exists>fp. buildFingerprint (sha256_hex A) e = Inr fp
            \<and> redis_get (Date_now A) (snd (evaluate A w e)) (''dedup:fp:'' @ fp)
                = Inr (Some ''1''))
         \<and> (truthy (dedupe_key e) \<longrightarrow>
              redis_get (Date_now A) (snd (evaluate A w e))
                (''dedup:key:'' @ or_empty (dedupe_key e)) = Inr (Some ''1'')))"
proof -
  from hr have dnd: "inDND (checkDND A)" by (simp add: checkDND_def Let_def)
  from path_dnd[OF pg dnd passes_guards_store_ok[OF pg]]
  obtain st where p: "pipeline A w e = returned (finalize A (snd (storeFingerprint A w e))
        LATER 35
        (''User in DND window ('' @ window (checkDND A) @ ''). Deferred to next open slot.'')
        (Some (getNextOpenWindow A)) st
        (map rule_id (matchRules e (getRules A))) (''aud_'' @ take 8 (uuidv4_audit A)) e)"
    by blast
  have "\<exists>r. fst (pipeline A w e) = Inr r" unfolding p by (simp add: fst_returned)
  then obtain r0 where r0: "fst (pipeline A w e) = Inr r0" by blast
  have ev: "evaluate A w e = pipeline A w e" by (rule evaluate_returned[OF r0])
  have res: "\<exists>r. fst (evaluate A w e) = Inr r \<and> decision r = LATER \<and> score r = 35
            \<and> schedule_at r = Some (getNextOpenWindow A)"
    unfolding ev p by (simp add: fst_returned fst_finalize)
  have d: "db (snd (evaluate A w e)) = db (snd (storeFingerprint A w e))"
    and s: "redis_status (snd (evaluate A w e)) = redis_status (snd (storeFingerprint A w e))"
    and i: "invoked (snd (evaluate A w e)) = invoked w @ [StoreFingerprint]"
    unfolding ev p by (simp_all add: snd_returned snd_finalize storeFingerprint_frame)
  have fr: "db (snd (evaluate A w e)) (''freq:'' @ r) = db w (''freq:'' @ r)" for r
    unfolding d using storeFingerprint_frame[of A w e r] by simp
  have wr: "(\<exists>fp. buildFingerprint (sha256_hex A) e = Inr fp
            \<and> redis_get (Date_now A) (snd (evaluate A w e)) (''dedup:fp:'' @ fp)
                = Inr (Some ''1''))
         \<and> (truthy (dedupe_key e) \<longrightarrow>
              redis_get (Date_now A) (snd (evaluate A w e))
                (''dedup:key:'' @ or_empty (dedupe_key e)) = Inr (Some ''1''))"
    if rdy: "redis_status w = Ready"
  proof -
    from pg obtain dup where "checkDuplicate A w e = Inr dup" "\<not> isDuplicate dup"
      by (auto simp: passes_guards_def split: sum.splits)
    then have "message e \<noteq> NonText" by (rule checkDuplicate_passed_text)
    then obtain fp where fp: "buildFingerprint (sha256_hex A) e = Inr fp"
      by (simp add: buildFingerprint_def Let_def)
    have c: "redis_get (Date_now A) (snd (evaluate A w e)) k
             = redis_get (Date_now A) (snd (storeFingerprint A w e)) k" for k
      by (rule redis_get_cong[OF d s])
    from storeFingerprint_writes[OF rdy fp] fp show ?thesis unfolding c by blast
  qed
  from res i fr[of "user_id e @ '':total''"] fr[of "user_id e @ '':'' @ interpolate (source e)"]
    fr[of "user_id e @ '':promo''"] wr
  show ?thesis by simp
qed

theorem dnd_deferral_frame_witness:
  "passes_guards night_ambient empty_world demo_event
   \<and> (Date_getHours night_ambient \<ge> 23 \<or> Date_getHours night_ambient < 8)
   \<and> redis_status empty_world = Ready
   \<and> (\<exists>r. fst (evaluate night_ambient empty_world demo_event) = Inr r \<and> decision r = LATER)
   \<and> invoked (snd (evaluate night_ambient empty_world demo_event)) = [StoreFingerprint]
   \<and> db (snd (evaluate night_ambient empty_world demo_event)) ''freq:u1:total'' = None
   \<and> db (snd (evaluate night_ambient empty_world demo_event)) ''freq:u1:digest-svc'' = None
   \<and> db (snd (evaluate night_ambient empty_world demo_event)) ''freq:u1:promo'' = None
   \<and> redis_get 1700000000000 (snd (evaluate night_ambient empty_world demo_event))
        ''dedup:fp:u1|digest|news|digest-svc'' = Inr (Some ''1'')"
proof -
  have h: "Date_getHours night_ambient \<ge> 23 \<or> Date_getHours night_ambient < 8"
    by (simp add: night_ambient_def demo_ambient_def)
  have r: "redis_status empty_world = Ready" by (simp add: empty_world_def)
  have fp: "buildFingerprint (sha256_hex night_ambient) demo_event
              = Inr ''u1|digest|news|digest-svc''"
    by (simp add: buildFingerprint_def demo_event_def message_text_def night_ambient_def
          demo_ambient_def or_empty_def trim_def toLowerCase_def lower_char_def is_upper_def
          isSpace_def char_of_def bit_Suc_0_iff)
  have e: "user_id demo_event = ''u1''" "source demo_event = Some ''digest-svc''"
    "dedupe_key demo_event = None"
    by (simp_all add: demo_event_def)
  have ew: "invoked empty_world = []" "\<And>k. db empty_world k = None"
    by (simp_all add: empty_world_def)
  show ?thesis
    using dnd_deferral_frame [OF night_passes_guards h] night_passes_guards h r
    by (simp add: fp e demo_now interpolate_def truthy_def ew) blast
qed

end
